theory Spec2Isabelle
  imports Complex_Main
begin

section \<open>Python values and errors\<close>

text \<open>
  The two artifacts are a Jupyter notebook (\<^verbatim>\<open>comparision.ipynb\<close>, Python 2.7) and a
  rendered HTML page with a front-matter block. The notebook's code is embedded cell by
  cell. A float64 is modelled by the real number it denotes; the external libraries
  (numpy's random stream, scikit-learn's estimators, the clock) are parameters.
\<close>

datatype pyerror =
    TypeError | ValueError | IndexError | KeyError | AttributeError | ZeroDivisionError
  | ImportError | PlotlyError

text \<open>
  The items a sequence hands to \<^verbatim>\<open>float(n[i])\<close>: a Python float or a numpy float64, a
  Python int, a bool, a numpy array (a row of a two-dimensional array is one), or
  \<^verbatim>\<open>None\<close>.
\<close>

datatype pyval = PyFloat real | PyInt int | PyBool bool | NpRow "real list" | PyNone

text \<open>
  Python's \<^verbatim>\<open>float(v)\<close>: the identity on a float, the conversion of an int or bool, the only
  element of an array of size one; a TypeError on an array of another size and on
  \<^verbatim>\<open>None\<close>.
\<close>

fun pyfloat :: "pyval \<Rightarrow> pyerror + real" where
  "pyfloat (PyFloat r) = Inr r"
| "pyfloat (PyInt k) = Inr (of_int k)"
| "pyfloat (PyBool b) = Inr (if b then 1 else 0)"
| "pyfloat (NpRow [r]) = Inr r"
| "pyfloat (NpRow rs) = Inl TypeError"
| "pyfloat PyNone = Inl TypeError"

fun numeric :: "pyval \<Rightarrow> bool" where
  "numeric (PyFloat r) = True"
| "numeric (PyInt k) = True"
| "numeric (PyBool b) = True"
| "numeric (NpRow rs) = (length rs = 1)"
| "numeric PyNone = False"

text \<open>The value \<^verbatim>\<open>float\<close> gives for a numeric item.\<close>

fun float_of :: "pyval \<Rightarrow> real" where
  "float_of (PyFloat r) = r"
| "float_of (PyInt k) = of_int k"
| "float_of (PyBool b) = (if b then 1 else 0)"
| "float_of (NpRow rs) = hd rs"
| "float_of PyNone = 0"

text \<open>\<^verbatim>\<open>n[i]\<close> for a non-negative index: an IndexError out of range.\<close>

definition getitem :: "'a list \<Rightarrow> nat \<Rightarrow> pyerror + 'a" where
  "getitem xs i = (if i < length xs then Inr (xs ! i) else Inl IndexError)"

section \<open>\<^verbatim>\<open>to_plotly\<close>\<close>

text \<open>
  \<^verbatim>\<open>
  def to_plotly(n):
      l = []
      for i in range(len(n)):
          k=float(n[i])
          l.append( k)
      return l
  \<close>
  The function's local variables are a record: the argument \<^verbatim>\<open>n\<close> and the list \<^verbatim>\<open>l\<close>. The
  loop runs over \<^verbatim>\<open>range(len(n))\<close> and stops at the first exception.
\<close>

record to_plotly_locals =
  var_n :: "pyval list"
  var_l :: "real list"

fun to_plotly_loop :: "nat list \<Rightarrow> to_plotly_locals \<Rightarrow> pyerror + to_plotly_locals" where
  "to_plotly_loop [] s = Inr s"
| "to_plotly_loop (i # is) s =
     (case getitem (var_n s) i of
        Inl e \<Rightarrow> Inl e
      | Inr v \<Rightarrow>
          (case pyfloat v of
             Inl e \<Rightarrow> Inl e
           | Inr k \<Rightarrow> to_plotly_loop is (s\<lparr>var_l := var_l s @ [k]\<rparr>)))"

text \<open>The locals when the function returns.\<close>

definition to_plotly_run :: "pyval list \<Rightarrow> pyerror + to_plotly_locals" where
  "to_plotly_run n0 = to_plotly_loop [0..<length n0] \<lparr>var_n = n0, var_l = []\<rparr>"

text \<open>The returned list \<^verbatim>\<open>l\<close>.\<close>

definition to_plotly :: "pyval list \<Rightarrow> pyerror + real list" where
  "to_plotly n0 = (case to_plotly_run n0 of Inl e \<Rightarrow> Inl e | Inr s \<Rightarrow> Inr (var_l s))"

section \<open>The front matter of the HTML page\<close>

text \<open>
  Lines 2 to 15 of \<^verbatim>\<open>2015-06-30-2d-histograms.html\<close>, between the two \<^verbatim>\<open>---\<close> lines.
\<close>

definition front_matter_lines :: "string list" where
  "front_matter_lines =
    [''permalink: python/2D-Histogram/'',
     ''description: How to make 2D Histograms in Python with Plotly.'',
     ''name: Python 2D Histograms | plotly'',
     ''has_thumbnail: true'',
     ''thumbnail: thumbnail/histogram2d.jpg'',
     ''layout: user-guide'',
     ''name: 2D Histograms'',
     ''language: python'',
     ''title: Python 2D Histograms | plotly'',
     ''display_as: statistical'',
     ''has_thumbnail: true'',
     ''ipynb: ~notebook_demo/24'',
     ''order: 6'',
     ''page_type: u-guide'']"

text \<open>
  A front-matter line is \<^verbatim>\<open>key: value\<close>: the key is the text before the first colon, the
  value the text after the colon and the blank that follows it.
\<close>

definition split_line :: "string \<Rightarrow> string \<times> string" where
  "split_line s =
     (takeWhile (\<lambda>c. c \<noteq> CHR '':'') s, drop 2 (dropWhile (\<lambda>c. c \<noteq> CHR '':'') s))"

definition front_matter :: "(string \<times> string) list" where
  "front_matter = map split_line front_matter_lines"

text \<open>
  What the documentation pipeline reads of a page: the lines between the two \<^verbatim>\<open>---\<close>
  lines as keys and values, and the body after them.
\<close>

definition render_page :: "string list \<Rightarrow> ((string \<times> string) list \<times> string list) option" where
  "render_page ls =
     (case ls of
        [] \<Rightarrow> None
      | l # rest \<Rightarrow>
          if l = ''---'' \<and> ''---'' \<in> set rest
          then Some (map split_line (takeWhile (\<lambda>x. x \<noteq> ''---'') rest),
                     tl (dropWhile (\<lambda>x. x \<noteq> ''---'') rest))
          else None)"

text \<open>The keys the specification lists.\<close>

definition spec_keys :: "string list" where
  "spec_keys =
    [''permalink'', ''description'', ''name'', ''layout'', ''language'', ''title'',
     ''display_as'', ''has_thumbnail'', ''thumbnail'', ''ipynb'', ''order'', ''page_type'']"

text \<open>How many lines carry a key.\<close>

definition occurrences :: "string \<Rightarrow> nat" where
  "occurrences k = length (filter (\<lambda>kv. fst kv = k) front_matter)"

text \<open>The values a key is given, in the order of the lines.\<close>

definition values_of :: "string \<Rightarrow> string list" where
  "values_of k = map snd (filter (\<lambda>kv. fst kv = k) front_matter)"

section \<open>Python objects handed to the libraries\<close>

text \<open>
  The objects the notebook builds and hands to the plotting library and to scikit-learn:
  numbers, strings, a string obtained by \<^verbatim>\<open>%\<close>-formatting numbers into a format
  (\<open>Fmt\<close>), booleans, \<^verbatim>\<open>None\<close>, Python lists, dictionaries (in the order the keys are
  written) and numpy arrays.
\<close>

datatype pyobj =
    Num real | IntNum int | Str string | Fmt string "real list" | Bool bool | NoneObj
  | Lst "pyobj list" | Dict "(string \<times> pyobj) list" | NdArray "real list"


text \<open>What holds the data handed to a trace: a Python list, a numpy array, or neither.\<close>

datatype container = PythonList | NumpyArray | NoContainer

fun container_of :: "pyobj \<Rightarrow> container" where
  "container_of (Lst xs) = PythonList"
| "container_of (NdArray rs) = NumpyArray"
| "container_of v = NoContainer"

text \<open>A Python list of floats, and the items of the two kinds of numpy array.\<close>

definition py_list :: "real list \<Rightarrow> pyobj" where
  "py_list l = Lst (map Num l)"

definition column_items :: "real list \<Rightarrow> pyval list" where
  \<comment> \<open>the rows of an array of shape (k, 1)\<close>
  "column_items xs = map (\<lambda>x. NpRow [x]) xs"

definition array_items :: "real list \<Rightarrow> pyval list" where
  \<comment> \<open>the float64 items of an array of shape (k,)\<close>
  "array_items ys = map PyFloat ys"

text \<open>\<^verbatim>\<open>d[key]\<close> and \<^verbatim>\<open>d[key] = v\<close> on a dictionary kept as an association list.\<close>

definition dict_set :: "string \<Rightarrow> pyobj \<Rightarrow> (string \<times> pyobj) list \<Rightarrow> (string \<times> pyobj) list" where
  "dict_set key v d =
     (if key \<in> set (map fst d)
      then map (\<lambda>kv. if fst kv = key then (key, v) else kv) d
      else d @ [(key, v)])"

definition dict_update :: "(string \<times> pyobj) list \<Rightarrow> (string \<times> pyobj) list \<Rightarrow> (string \<times> pyobj) list" where
  \<comment> \<open>\<^verbatim>\<open>d.update(**kwargs)\<close>\<close>
  "dict_update d kwargs = foldl (\<lambda>acc kv. dict_set (fst kv) (snd kv) acc) d kwargs"

section \<open>scikit-learn estimators\<close>

text \<open>
  An estimator is the constructor called with its keyword arguments; a model is an
  estimator object with the data of its last \<^verbatim>\<open>fit\<close>, if any.
\<close>

datatype estimator =
    SVR "(string \<times> pyobj) list"
  | KernelRidge "(string \<times> pyobj) list"
  | GridSearchCV estimator "(string \<times> pyobj) list"

datatype model = Model estimator "(real list \<times> real list) option"

definition fit :: "model \<Rightarrow> real list \<Rightarrow> real list \<Rightarrow> model" where
  "fit m Xt yt = (case m of Model e d \<Rightarrow> Model e (Some (Xt, yt)))"

section \<open>The external world\<close>

text \<open>
  Every call into a library is recorded, in order, in the kernel's list \<open>calls\<close>. The
  libraries themselves are not part of the repository: what they return is a parameter.
\<close>

datatype api =
    Import string
  | RandomState | Rand | Sin | Linspace | Logspace
  | New_SVR | New_KernelRidge | New_GridSearchCV | Fit | Predict | LearningCurve
  | MakeSubplots | Scatter | LayoutUpdate | AppendTrace | Iplot
  | Publish
  | Time | Print | HTML | Display | Shell string

record world =
  draws :: "nat \<Rightarrow> real"
    \<comment> \<open>the stream of \<^verbatim>\<open>RandomState(0)\<close>: its k-th uniform draw\<close>
  clock :: "nat \<Rightarrow> real"
    \<comment> \<open>the reading of \<^verbatim>\<open>time.time()\<close> when it is the j-th call\<close>
  raises :: "nat \<Rightarrow> pyerror option"
    \<comment> \<open>the exception the j-th call raises, if it raises one\<close>
  warnings :: "nat \<Rightarrow> string list"
    \<comment> \<open>the warnings the j-th call writes to stderr\<close>
  prints :: "nat \<Rightarrow> string list"
    \<comment> \<open>what the j-th call writes to stdout\<close>
  shell_exit :: "nat \<Rightarrow> int"
    \<comment> \<open>the exit status of a shell command run as the j-th call\<close>
  support :: "model \<Rightarrow> nat list"
    \<comment> \<open>\<^verbatim>\<open>best_estimator_.support_\<close> of a fitted grid search\<close>
  predict :: "model \<Rightarrow> real list \<Rightarrow> real list"
  learning_curve ::
    "model \<Rightarrow> real list \<Rightarrow> real list \<Rightarrow> real list
       \<Rightarrow> real list \<times> real list list \<times> real list list"
    \<comment> \<open>estimator, X, y, train\_sizes; gives the sizes, the train and the test scores\<close>
  krr_first :: bool
    \<comment> \<open>whether \<^verbatim>\<open>.items()\<close> of the two-entry dictionary yields "KRR" first\<close>
  files :: "string \<Rightarrow> string list option"
    \<comment> \<open>the files on disk, by path: the lines of each\<close>
  publisher :: "string list option \<Rightarrow> pyobj list \<Rightarrow> (string \<times> pyobj) list \<Rightarrow> string"
    \<comment> \<open>the page \<^verbatim>\<open>publisher.publish\<close> makes of a notebook file's content and its arguments\<close>

section \<open>The plotting library's figure\<close>

text \<open>
  A figure made by \<^verbatim>\<open>tools.make_subplots\<close>: the grid (per cell its pair of axes, or
  \<^verbatim>\<open>None\<close> for an empty cell), the list of traces and the layout.
\<close>

record figure =
  grid_ref :: "(string \<times> string) option list list"
  fig_data :: "pyobj list"
  fig_layout :: "(string \<times> pyobj) list"

fun digit :: "nat \<Rightarrow> char" where
  "digit n = (if n = 0 then CHR ''0'' else if n = 1 then CHR ''1'' else if n = 2 then CHR ''2''
     else if n = 3 then CHR ''3'' else if n = 4 then CHR ''4'' else if n = 5 then CHR ''5''
     else if n = 6 then CHR ''6'' else if n = 7 then CHR ''7'' else if n = 8 then CHR ''8''
     else CHR ''9'')"

fun decimal :: "nat \<Rightarrow> string" where
  "decimal n = (if n < 10 then [digit n] else decimal (n div 10) @ [digit (n mod 10)])"

text \<open>
  The cells of one row of \<^verbatim>\<open>specs\<close>, numbered from \<open>cnt\<close>: a cell with a spec gets
  the next pair of axes, a \<^verbatim>\<open>None\<close> cell gets none.
\<close>

fun number_row :: "nat \<Rightarrow> (string \<times> pyobj) list option list
    \<Rightarrow> (string \<times> string) option list \<times> nat" where
  "number_row cnt [] = ([], cnt)"
| "number_row cnt (None # cs) = (let (r, c) = number_row cnt cs in (None # r, c))"
| "number_row cnt (Some spec # cs) =
     (let (r, c) = number_row (cnt + 1) cs
      in (Some (''x'' @ decimal (cnt + 1), ''y'' @ decimal (cnt + 1)) # r, c))"

fun number_grid :: "nat \<Rightarrow> (string \<times> pyobj) list option list list
    \<Rightarrow> (string \<times> string) option list list" where
  "number_grid cnt [] = []"
| "number_grid cnt (row # rows) =
     (let (r, c) = number_row cnt row in r # number_grid c rows)"

text \<open>The layout entries of the axes of a grid, and the titles as annotations.\<close>

definition axes_layout :: "(string \<times> string) option list list \<Rightarrow> (string \<times> pyobj) list" where
  "axes_layout g =
     concat (map (\<lambda>cell. case cell of
                None \<Rightarrow> []
              | Some (x, y) \<Rightarrow>
                  [(''xaxis'' @ tl x, Dict [(''anchor'', Str y)]),
                   (''yaxis'' @ tl y, Dict [(''anchor'', Str x)])])
            (concat g))"

definition make_subplots :: "nat \<Rightarrow> nat \<Rightarrow> (string \<times> pyobj) list option list list
    \<Rightarrow> string list \<Rightarrow> pyerror + figure" where
  "make_subplots rows cols specs subplot_titles =
     (if length specs \<noteq> rows \<or> \<not> list_all (\<lambda>row. length row = cols) specs
      then Inl PlotlyError
      else Inr \<lparr>grid_ref = number_grid 0 specs,
                fig_data = [],
                fig_layout = axes_layout (number_grid 0 specs)
                  @ [(''annotations'',
                      Lst (map (\<lambda>t. Dict [(''text'', Str t)]) subplot_titles))]\<rparr>)"

text \<open>
  \<^verbatim>\<open>fig.append_trace(trace, row, col)\<close>: the cell must exist and must not be empty; the
  trace is given the cell's axes and is added at the end of the figure's data.
\<close>

definition append_trace :: "figure \<Rightarrow> pyobj \<Rightarrow> nat \<Rightarrow> nat \<Rightarrow> pyerror + figure" where
  "append_trace f trace row col =
     (if row = 0 \<or> col = 0 then Inl PlotlyError
      else case getitem (grid_ref f) (row - 1) of
        Inl e \<Rightarrow> Inl PlotlyError
      | Inr r \<Rightarrow>
         (case getitem r (col - 1) of
            Inl e \<Rightarrow> Inl PlotlyError
          | Inr None \<Rightarrow> Inl PlotlyError
          | Inr (Some (x, y)) \<Rightarrow>
             (case trace of
                Dict kvs \<Rightarrow>
                  Inr (f\<lparr>fig_data := fig_data f
                        @ [Dict (dict_set ''yaxis'' (Str y) (dict_set ''xaxis'' (Str x) kvs))]\<rparr>)
              | other \<Rightarrow> Inl TypeError)))"

text \<open>\<^verbatim>\<open>fig['layout'][key].update(**kwargs)\<close> and \<^verbatim>\<open>fig['layout'].update(**kwargs)\<close>.\<close>

definition layout_item_update :: "string \<Rightarrow> (string \<times> pyobj) list \<Rightarrow> figure \<Rightarrow> pyerror + figure" where
  "layout_item_update key kwargs f =
     (case map_of (fig_layout f) key of
        None \<Rightarrow> Inl KeyError
      | Some (Dict d) \<Rightarrow>
          Inr (f\<lparr>fig_layout := dict_set key (Dict (dict_update d kwargs)) (fig_layout f)\<rparr>)
      | Some other \<Rightarrow> Inl AttributeError)"

definition layout_update :: "(string \<times> pyobj) list \<Rightarrow> figure \<Rightarrow> figure" where
  "layout_update kwargs f = f\<lparr>fig_layout := dict_update (fig_layout f) kwargs\<rparr>"

text \<open>The trace's subplot, read back from the axes it was given.\<close>

definition trace_axes :: "pyobj \<Rightarrow> (pyobj option \<times> pyobj option)" where
  "trace_axes t = (case t of Dict kvs \<Rightarrow> (map_of kvs ''xaxis'', map_of kvs ''yaxis'')
                   | other \<Rightarrow> (None, None))"

text \<open>Whether the layout has a dictionary under a key.\<close>

definition has_axis :: "figure \<Rightarrow> string \<Rightarrow> bool" where
  "has_axis f key = (case map_of (fig_layout f) key of Some (Dict d) \<Rightarrow> True | other \<Rightarrow> False)"

definition trace_field :: "string \<Rightarrow> pyobj \<Rightarrow> pyobj option" where
  "trace_field key t = (case t of Dict kvs \<Rightarrow> map_of kvs key | other \<Rightarrow> None)"

section \<open>The notebook's kernel\<close>

text \<open>
  The state of the kernel that runs \<^verbatim>\<open>comparision.ipynb\<close>: the calls made so far, what was
  written to stdout and stderr, the pages published, and one field per variable of the
  notebook (\<open>v_X\<close> is \<^verbatim>\<open>X\<close>). \<open>v_rng\<close> is the state of the generator \<^verbatim>\<open>rng\<close>: the number of
  draws it has given. An array of shape (k, 1) and one of shape (k,) are both kept as the
  list of their k numbers. No statement of the notebook keeps a second reference to an
  array or list that a later statement changes in place, so a variable holds its value.
\<close>

record kernel =
  calls :: "api list"
  stdout :: "pyobj list"
  stderr :: "string list"
  published :: "string list"
  v_exit_code :: int
  v_rng :: nat
  v_X :: "real list"
  v_y :: "real list"
  v_X_plot :: "real list"
  v_train_size :: int
  v_svr :: model
  v_kr :: model
  v_t0 :: real
  v_svr_fit :: real
  v_kr_fit :: real
  v_sv_ratio :: real
  v_y_svr :: "real list"
  v_y_kr :: "real list"
  v_svr_predict :: real
  v_kr_predict :: real
  v_fig :: figure
  v_sv_ind :: "nat list"
  v_trace1 :: pyobj
  v_trace2 :: pyobj
  v_trace3 :: pyobj
  v_trace4 :: pyobj
  v_sizes :: "real list"
  v_plot2 :: "pyobj list"
  v_name :: string
  v_estimator :: model
  v_train_time :: "real list"
  v_test_time :: "real list"
  v_train_test_size :: real
  v_trace5 :: pyobj
  v_trace6 :: pyobj
  v_train_sizes :: "real list"
  v_train_scores_svr :: "real list list"
  v_test_scores_svr :: "real list list"
  v_train_sizes_abs :: "real list"
  v_train_scores_kr :: "real list list"
  v_test_scores_kr :: "real list list"
  v_trace7 :: pyobj
  v_trace8 :: pyobj

text \<open>
  A statement either ends normally with a new kernel state or raises: \<open>Inl (e, k)\<close> is
  the exception \<open>e\<close> with the state \<open>k\<close> the kernel is left in.
\<close>

type_synonym result = "(pyerror \<times> kernel) + kernel"
type_synonym step = "kernel \<Rightarrow> result"

text \<open>
  Statements run in sequence; the notebook has no \<^verbatim>\<open>try\<close>, so the first exception ends
  the run and is its result.
\<close>

fun run :: "step list \<Rightarrow> step" where
  "run [] k = Inr k"
| "run (s # ss) k = (case s k of Inl x \<Rightarrow> Inl x | Inr k' \<Rightarrow> run ss k')"

text \<open>
  A call into a library: it is recorded, what it prints is appended to stdout and stderr,
  and it raises if the world says so. \<open>ext\<close> is a call followed by what the statement
  does with the result; the call's index \<open>j\<close> selects what the world returns.
\<close>

definition call :: "world \<Rightarrow> api \<Rightarrow> step" where
  "call W a k =
     (let j = length (calls k);
          k' = k\<lparr>calls := calls k @ [a],
                 stdout := stdout k @ map Str (prints W j),
                 stderr := stderr k @ warnings W j\<rparr>
      in case raises W j of Some e \<Rightarrow> Inl (e, k') | None \<Rightarrow> Inr k')"

definition ext :: "world \<Rightarrow> api \<Rightarrow> (nat \<Rightarrow> step) \<Rightarrow> step" where
  "ext W a f k = (case call W a k of Inl x \<Rightarrow> Inl x | Inr k' \<Rightarrow> f (length (calls k)) k')"

section \<open>numpy operations\<close>

definition np_rand :: "world \<Rightarrow> nat \<Rightarrow> nat \<Rightarrow> real list" where
  \<comment> \<open>\<^verbatim>\<open>rng.rand(m)\<close> and \<^verbatim>\<open>rng.rand(m, 1)\<close> when \<open>pos\<close> draws have been given\<close>
  "np_rand W pos m = map (draws W) [pos..<pos + m]"

definition np_linspace :: "real \<Rightarrow> real \<Rightarrow> nat \<Rightarrow> real list" where
  "np_linspace a b num = map (\<lambda>i. a + real i * ((b - a) / real (num - 1))) [0..<num]"

definition np_logspace :: "real \<Rightarrow> real \<Rightarrow> nat \<Rightarrow> real list" where
  "np_logspace a b num = map (\<lambda>x. 10 powr x) (np_linspace a b num)"

text \<open>
  \<^verbatim>\<open>ys[::step] += v\<close>: \<open>v\<close> is added, item by item, to the items of \<open>ys\<close> at the indices
  0, step, 2 step, ...; \<open>v\<close> must have as many items as the slice, or one item.
\<close>

definition iadd_stride :: "nat \<Rightarrow> real list \<Rightarrow> real list \<Rightarrow> pyerror + real list" where
  "iadd_stride step ys v =
     (if step = 0 then Inl ValueError
      else if length v = (length ys + step - 1) div step
      then Inr (map (\<lambda>i. if i mod step = 0 then ys ! i + v ! (i div step) else ys ! i)
                  [0..<length ys])
      else if length v = 1
      then Inr (map (\<lambda>i. if i mod step = 0 then ys ! i + v ! 0 else ys ! i) [0..<length ys])
      else Inl ValueError)"

text \<open>\<^verbatim>\<open>xs[idx]\<close> with an array of indices, \<^verbatim>\<open>int(r)\<close> and \<^verbatim>\<open>xs[:n]\<close>.\<close>

definition take_idx :: "'a list \<Rightarrow> nat list \<Rightarrow> pyerror + 'a list" where
  "take_idx xs idx =
     (if list_all (\<lambda>i. i < length xs) idx then Inr (map (\<lambda>i. xs ! i) idx) else Inl IndexError)"

definition py_int :: "real \<Rightarrow> int" where
  "py_int r = (if 0 \<le> r then \<lfloor>r\<rfloor> else \<lceil>r\<rceil>)"

definition slice_to :: "'a list \<Rightarrow> int \<Rightarrow> 'a list" where
  "slice_to xs n = (if 0 \<le> n then take (nat n) xs else take (length xs - nat (- n)) xs)"

definition mean :: "real list \<Rightarrow> real" where
  "mean row = sum_list row / real (length row)"

section \<open>The cells of \<^verbatim>\<open>comparision.ipynb\<close>\<close>

subsection \<open>Version and imports (lines 50-51 and 76-86)\<close>

definition cell1 :: "world \<Rightarrow> step" where
  "cell1 W = run [call W (Import ''sklearn'')]"

definition cell2 :: "world \<Rightarrow> step" where
  "cell2 W = run (map (\<lambda>m. call W (Import m))
     [''plotly.plotly'', ''plotly.graph_objs'', ''plotly'', ''__future__'', ''time'',
      ''numpy'', ''sklearn.svm'', ''sklearn.model_selection'', ''sklearn.model_selection'',
      ''sklearn.kernel_ridge''])"

subsection \<open>Generate sample data (lines 122-129, and again lines 289-291)\<close>

text \<open>\<^verbatim>\<open>rng = np.random.RandomState(0)\<close>\<close>

definition new_rng :: "world \<Rightarrow> step" where
  "new_rng W = ext W RandomState (\<lambda>j k. Inr (k\<lparr>v_rng := 0\<rparr>))"

text \<open>\<^verbatim>\<open>X = 5 * rng.rand(10000, 1)\<close>\<close>

definition gen_X :: "world \<Rightarrow> step" where
  "gen_X W = ext W Rand (\<lambda>j k.
     Inr (k\<lparr>v_X := map (\<lambda>r. 5 * r) (np_rand W (v_rng k) 10000),
            v_rng := v_rng k + 10000\<rparr>))"

text \<open>\<^verbatim>\<open>y = np.sin(X).ravel()\<close>\<close>

definition gen_y :: "world \<Rightarrow> step" where
  "gen_y W = ext W Sin (\<lambda>j k. Inr (k\<lparr>v_y := map sin (v_X k)\<rparr>))"

text \<open>
  \<^verbatim>\<open>y[::5] += 3 * (0.5 - rng.rand(X.shape[0]/5))\<close>. With \<^verbatim>\<open>from __future__ import division\<close>
  the quotient is the float 2000.0, which numpy takes as the integer 2000 (with the
  deprecation warning of the notebook's output).
\<close>

definition add_noise :: "world \<Rightarrow> step" where
  "add_noise W = ext W Rand (\<lambda>j k.
     (let m = length (v_X k) div 5;
          noise = map (\<lambda>r. 3 * (0.5 - r)) (np_rand W (v_rng k) m);
          k' = k\<lparr>v_rng := v_rng k + m\<rparr>
      in case iadd_stride 5 (v_y k) noise of
           Inl e \<Rightarrow> Inl (e, k')
         | Inr y' \<Rightarrow> Inr (k'\<lparr>v_y := y'\<rparr>)))"

text \<open>\<^verbatim>\<open>X_plot = np.linspace(0, 5, 100000)[:, None]\<close>\<close>

definition gen_X_plot :: "world \<Rightarrow> step" where
  "gen_X_plot W = ext W Linspace (\<lambda>j k. Inr (k\<lparr>v_X_plot := np_linspace 0 5 100000\<rparr>))"

definition cell3 :: "world \<Rightarrow> step" where
  "cell3 W = run [new_rng W, gen_X W, gen_y W, add_noise W, gen_X_plot W]"

subsection \<open>Fit regression model (lines 159-193)\<close>

text \<open>\<^verbatim>\<open>t0 = time.time()\<close>, \<^verbatim>\<open>v = time.time() - t0\<close> and \<^verbatim>\<open>print(fmt % args)\<close>.\<close>

definition set_t0 :: "world \<Rightarrow> step" where
  "set_t0 W = ext W Time (\<lambda>j k. Inr (k\<lparr>v_t0 := clock W j\<rparr>))"

definition elapsed :: "world \<Rightarrow> (real \<Rightarrow> kernel \<Rightarrow> kernel) \<Rightarrow> step" where
  "elapsed W store = ext W Time (\<lambda>j k. Inr (store (clock W j - v_t0 k) k))"

definition print_fmt :: "world \<Rightarrow> string \<Rightarrow> (kernel \<Rightarrow> real list) \<Rightarrow> step" where
  "print_fmt W fmt args = (\<lambda>k. ext W Print (\<lambda>j k'. Inr (k'\<lparr>stdout := stdout k' @ [Fmt fmt (args k)]\<rparr>)) k)"

definition cell4 :: "world \<Rightarrow> step" where
  "cell4 W = run
    [(\<lambda>k. Inr (k\<lparr>v_train_size := 100\<rparr>)),
     call W New_SVR,
     call W Logspace,
     ext W New_GridSearchCV (\<lambda>j k. Inr (k\<lparr>v_svr :=
       Model (GridSearchCV (SVR [(''kernel'', Str ''rbf''), (''gamma'', Num 0.1)])
                [(''cv'', IntNum 5),
                 (''param_grid'', Dict [(''C'', Lst [Num 1, Num 10, Num 100, Num 1000]),
                                        (''gamma'', NdArray (np_logspace (- 2) 2 5))])])
             None\<rparr>)),
     call W New_KernelRidge,
     call W Logspace,
     ext W New_GridSearchCV (\<lambda>j k. Inr (k\<lparr>v_kr :=
       Model (GridSearchCV (KernelRidge [(''kernel'', Str ''rbf''), (''gamma'', Num 0.1)])
                [(''cv'', IntNum 5),
                 (''param_grid'', Dict [(''alpha'', Lst [Num 1, Num 0.1, Num 0.01, Num 0.001]),
                                        (''gamma'', NdArray (np_logspace (- 2) 2 5))])])
             None\<rparr>)),
     set_t0 W,
     ext W Fit (\<lambda>j k. Inr (k\<lparr>v_svr :=
       fit (v_svr k) (slice_to (v_X k) (v_train_size k)) (slice_to (v_y k) (v_train_size k))\<rparr>)),
     elapsed W (\<lambda>d k. k\<lparr>v_svr_fit := d\<rparr>),
     print_fmt W ''SVR complexity and bandwidth selected and model fitted in %.3f s''
       (\<lambda>k. [v_svr_fit k]),
     set_t0 W,
     ext W Fit (\<lambda>j k. Inr (k\<lparr>v_kr :=
       fit (v_kr k) (slice_to (v_X k) (v_train_size k)) (slice_to (v_y k) (v_train_size k))\<rparr>)),
     elapsed W (\<lambda>d k. k\<lparr>v_kr_fit := d\<rparr>),
     print_fmt W ''KRR complexity and bandwidth selected and model fitted in %.3f s''
       (\<lambda>k. [v_kr_fit k]),
     (\<lambda>k. if v_train_size k = 0 then Inl (ZeroDivisionError, k)
          else Inr (k\<lparr>v_sv_ratio :=
            real (length (support W (v_svr k))) / real_of_int (v_train_size k)\<rparr>)),
     print_fmt W ''Support vector ratio: %.3f'' (\<lambda>k. [v_sv_ratio k]),
     set_t0 W,
     ext W Predict (\<lambda>j k. Inr (k\<lparr>v_y_svr := predict W (v_svr k) (v_X_plot k)\<rparr>)),
     elapsed W (\<lambda>d k. k\<lparr>v_svr_predict := d\<rparr>),
     print_fmt W ''SVR prediction for %d inputs in %.3f s''
       (\<lambda>k. [real (length (v_X_plot k)), v_svr_predict k]),
     set_t0 W,
     ext W Predict (\<lambda>j k. Inr (k\<lparr>v_y_kr := predict W (v_kr k) (v_X_plot k)\<rparr>)),
     elapsed W (\<lambda>d k. k\<lparr>v_kr_predict := d\<rparr>),
     print_fmt W ''KRR prediction for %d inputs in %.3f s''
       (\<lambda>k. [real (length (v_X_plot k)), v_kr_predict k])]"

subsection \<open>Plot results (lines 236-355)\<close>

text \<open>
  \<^verbatim>\<open>v = go.Scatter(**kwargs)\<close>: the keyword arguments are evaluated first (they may
  raise), then the trace is made; a trace is a dictionary of its type and its arguments.
\<close>

definition new_scatter ::
  "world \<Rightarrow> (kernel \<Rightarrow> pyerror + (string \<times> pyobj) list) \<Rightarrow> (pyobj \<Rightarrow> kernel \<Rightarrow> kernel) \<Rightarrow> step" where
  "new_scatter W kwargs store k =
     (case kwargs k of
        Inl e \<Rightarrow> Inl (e, k)
      | Inr kw \<Rightarrow> ext W Scatter (\<lambda>j k'. Inr (store (Dict ((''type'', Str ''scatter'') # kw)) k')) k)"

text \<open>\<^verbatim>\<open>fig.append_trace(t, row, col)\<close> and \<^verbatim>\<open>fig['layout'][key].update(**kwargs)\<close>.\<close>

definition append_step :: "world \<Rightarrow> (kernel \<Rightarrow> pyobj) \<Rightarrow> nat \<Rightarrow> nat \<Rightarrow> step" where
  "append_step W t row col = ext W AppendTrace (\<lambda>j k.
     (case append_trace (v_fig k) (t k) row col of
        Inl e \<Rightarrow> Inl (e, k)
      | Inr f \<Rightarrow> Inr (k\<lparr>v_fig := f\<rparr>)))"

definition layout_step :: "world \<Rightarrow> string \<Rightarrow> (string \<times> pyobj) list \<Rightarrow> step" where
  "layout_step W key kwargs k =
     (case layout_item_update key kwargs (v_fig k) of
        Inl e \<Rightarrow> Inl (e, k)
      | Inr f \<Rightarrow> ext W LayoutUpdate (\<lambda>j k'. Inr (k'\<lparr>v_fig := f\<rparr>)) k)"

text \<open>The keyword arguments of the eight traces (lines 250-278, 309-319, 341-348).\<close>

definition trace1_kwargs :: "kernel \<Rightarrow> pyerror + (string \<times> pyobj) list" where
  "trace1_kwargs k =
     (case take_idx (v_X k) (v_sv_ind k) of Inl e \<Rightarrow> Inl e | Inr xs \<Rightarrow>
      case to_plotly (column_items xs) of Inl e \<Rightarrow> Inl e | Inr lx \<Rightarrow>
      case take_idx (v_y k) (v_sv_ind k) of Inl e \<Rightarrow> Inl e | Inr ys \<Rightarrow>
      case to_plotly (array_items ys) of Inl e \<Rightarrow> Inl e | Inr ly \<Rightarrow>
        Inr [(''x'', py_list lx), (''y'', py_list ly),
             (''name'', Str ''SVR support vectors''),
             (''mode'', Str ''markers''),
             (''marker'', Dict [(''color'', Str ''red''), (''size'', IntNum 10),
                (''line'', Dict [(''color'', Str ''black''), (''width'', IntNum 1)])])])"

definition trace2_kwargs :: "kernel \<Rightarrow> pyerror + (string \<times> pyobj) list" where
  "trace2_kwargs k =
     (case to_plotly (column_items (slice_to (v_X k) 100)) of Inl e \<Rightarrow> Inl e | Inr lx \<Rightarrow>
      case to_plotly (array_items (slice_to (v_y k) 100)) of Inl e \<Rightarrow> Inl e | Inr ly \<Rightarrow>
        Inr [(''x'', py_list lx), (''y'', py_list ly),
             (''name'', Str ''data''),
             (''mode'', Str ''markers''),
             (''marker'', Dict [(''color'', Str ''green''), (''size'', IntNum 5),
                (''line'', Dict [(''color'', Str ''black'')])])])"

definition trace3_kwargs :: "kernel \<Rightarrow> pyerror + (string \<times> pyobj) list" where
  "trace3_kwargs k =
     (case to_plotly (column_items (v_X_plot k)) of Inl e \<Rightarrow> Inl e | Inr lx \<Rightarrow>
      case to_plotly (array_items (v_y_svr k)) of Inl e \<Rightarrow> Inl e | Inr ly \<Rightarrow>
        Inr [(''x'', py_list lx), (''y'', py_list ly),
             (''marker'', Dict [(''line'', Dict [(''color'', Str ''red'')])]),
             (''mode'', Str ''lines''),
             (''name'', Fmt ''SVR (fit: %.3fs, predict: %.3fs)''
                          [v_svr_fit k, v_svr_predict k])])"

definition trace4_kwargs :: "kernel \<Rightarrow> pyerror + (string \<times> pyobj) list" where
  "trace4_kwargs k =
     (case to_plotly (column_items (v_X_plot k)) of Inl e \<Rightarrow> Inl e | Inr lx \<Rightarrow>
      case to_plotly (array_items (v_y_kr k)) of Inl e \<Rightarrow> Inl e | Inr ly \<Rightarrow>
        Inr [(''x'', py_list lx), (''y'', py_list ly),
             (''marker'', Dict [(''line'', Dict [(''color'', Str ''green'')])]),
             (''mode'', Str ''lines''),
             (''name'', Fmt ''KRR (fit: %.3fs, predict: %.3fs)''
                          [v_kr_fit k, v_kr_predict k])])"

definition trace5_kwargs :: "kernel \<Rightarrow> pyerror + (string \<times> pyobj) list" where
  "trace5_kwargs k =
     Inr [(''x'', NdArray (v_sizes k)), (''y'', py_list (v_train_time k)),
          (''mode'', Str ''lines+markers''),
          (''marker'', Dict [(''color'',
             Str (if v_name k = ''SVR'' then ''red'' else ''green''))]),
          (''name'', Str (v_name k @ '' (train)''))]"

definition trace6_kwargs :: "kernel \<Rightarrow> pyerror + (string \<times> pyobj) list" where
  "trace6_kwargs k =
     Inr [(''x'', NdArray (v_sizes k)), (''y'', py_list (v_test_time k)),
          (''mode'', Str ''lines+markers''),
          (''marker'', Dict [(''color'',
             Str (if v_name k = ''SVR'' then ''red'' else ''green''))]),
          (''line'', Dict [(''dash'', Str ''dash'')]),
          (''name'', Str (v_name k @ '' (test)''))]"

definition trace7_kwargs :: "kernel \<Rightarrow> pyerror + (string \<times> pyobj) list" where
  "trace7_kwargs k =
     Inr [(''x'', NdArray (v_train_sizes k)),
          (''y'', NdArray (map (\<lambda>row. - mean row) (v_test_scores_svr k))),
          (''mode'', Str ''lines+markers''),
          (''marker'', Dict [(''color'', Str ''red'')]),
          (''name'', Str ''SVR'')]"

definition trace8_kwargs :: "kernel \<Rightarrow> pyerror + (string \<times> pyobj) list" where
  "trace8_kwargs k =
     Inr [(''x'', NdArray (v_train_sizes k)),
          (''y'', NdArray (map (\<lambda>row. - mean row) (v_test_scores_kr k))),
          (''mode'', Str ''lines+markers''),
          (''marker'', Dict [(''color'', Str ''green'')]),
          (''name'', Str ''KRR'')]"

text \<open>
  The body of the inner loop (lines 300-307), for one \<^verbatim>\<open>train_test_size\<close>: the slice
  bound is a float, which numpy truncates to an integer (with the deprecation warning of
  the notebook's output).
\<close>

definition timing_body :: "world \<Rightarrow> real \<Rightarrow> step" where
  "timing_body W sz = run
    [(\<lambda>k. Inr (k\<lparr>v_train_test_size := sz\<rparr>)),
     set_t0 W,
     ext W Fit (\<lambda>j k. Inr (k\<lparr>v_estimator :=
       fit (v_estimator k) (slice_to (v_X k) (py_int (v_train_test_size k)))
                           (slice_to (v_y k) (py_int (v_train_test_size k)))\<rparr>)),
     elapsed W (\<lambda>d k. k\<lparr>v_train_time := v_train_time k @ [d]\<rparr>),
     set_t0 W,
     call W Predict,
     elapsed W (\<lambda>d k. k\<lparr>v_test_time := v_test_time k @ [d]\<rparr>)]"

text \<open>The body of the outer loop (lines 295-321), for one item of the dictionary.\<close>

definition estimator_body :: "world \<Rightarrow> string \<times> model \<Rightarrow> step" where
  "estimator_body W item = run
    [(\<lambda>k. Inr (k\<lparr>v_name := fst item, v_estimator := snd item\<rparr>)),
     (\<lambda>k. Inr (k\<lparr>v_train_time := []\<rparr>)),
     (\<lambda>k. Inr (k\<lparr>v_test_time := []\<rparr>)),
     (\<lambda>k. run (map (timing_body W) (v_sizes k)) k),
     new_scatter W trace5_kwargs (\<lambda>t k. k\<lparr>v_trace5 := t\<rparr>),
     new_scatter W trace6_kwargs (\<lambda>t k. k\<lparr>v_trace6 := t\<rparr>),
     (\<lambda>k. Inr (k\<lparr>v_plot2 := v_plot2 k @ [v_trace5 k]\<rparr>)),
     (\<lambda>k. Inr (k\<lparr>v_plot2 := v_plot2 k @ [v_trace6 k]\<rparr>))]"

text \<open>
  \<^verbatim>\<open>{"KRR": KernelRidge(...), "SVR": SVR(...)}.items()\<close>: the order of the items of a
  Python 2 dictionary is the interpreter's.
\<close>

definition estimator_items :: "world \<Rightarrow> (string \<times> model) list" where
  "estimator_items W =
     (let krr = (''KRR'', Model (KernelRidge [(''kernel'', Str ''rbf''), (''alpha'', Num 0.1),
                                             (''gamma'', IntNum 10)]) None);
          svr = (''SVR'', Model (SVR [(''kernel'', Str ''rbf''), (''C'', Num 10),
                                     (''gamma'', IntNum 10)]) None)
      in if krr_first W then [krr, svr] else [svr, krr])"

text \<open>\<^verbatim>\<open>a, b, c = learning_curve(est, X[:100], y[:100], train_sizes=np.linspace(0.1, 1, 10), ...)\<close>\<close>

definition learning_step ::
  "world \<Rightarrow> (kernel \<Rightarrow> model)
     \<Rightarrow> (real list \<times> real list list \<times> real list list \<Rightarrow> kernel \<Rightarrow> kernel) \<Rightarrow> step" where
  "learning_step W est store = run
    [call W Linspace,
     ext W LearningCurve (\<lambda>j k. Inr (store
       (learning_curve W (est k) (slice_to (v_X k) 100) (slice_to (v_y k) 100)
          (np_linspace 0.1 1 10)) k))]"

text \<open>
  The cell, in the four parts its comments divide it into: the figure and the traces of the
  two fitted models (lines 242-284), the second sample (lines 289-293), the timing of fit
  and predict (lines 295-328) and the learning curves (lines 332-355).
\<close>

definition cell5_models :: "world \<Rightarrow> step list" where
  "cell5_models W =
    [ext W MakeSubplots (\<lambda>j k.
       (case make_subplots 2 2 [[Some [], Some []], [Some [], None]]
               [''SVR versus Kernel Ridge'', ''Execution Time'', ''Learning Curves''] of
          Inl e \<Rightarrow> Inl (e, k)
        | Inr f \<Rightarrow> Inr (k\<lparr>v_fig := f\<rparr>))),
     (\<lambda>k. Inr (k\<lparr>v_sv_ind := support W (v_svr k)\<rparr>)),
     new_scatter W trace1_kwargs (\<lambda>t k. k\<lparr>v_trace1 := t\<rparr>),
     new_scatter W trace2_kwargs (\<lambda>t k. k\<lparr>v_trace2 := t\<rparr>),
     new_scatter W trace3_kwargs (\<lambda>t k. k\<lparr>v_trace3 := t\<rparr>),
     new_scatter W trace4_kwargs (\<lambda>t k. k\<lparr>v_trace4 := t\<rparr>),
     layout_step W ''xaxis1'' [(''title'', Str ''data'')],
     layout_step W ''yaxis1'' [(''title'', Str ''target'')],
     run (map (\<lambda>i. append_step W i 1 1) [v_trace1, v_trace2, v_trace3, v_trace4])]"

definition cell5_sample :: "world \<Rightarrow> step list" where
  "cell5_sample W =
    [gen_X W,
     gen_y W,
     add_noise W,
     ext W Logspace (\<lambda>j k. Inr (k\<lparr>v_sizes := np_logspace 1 4 7\<rparr>)),
     (\<lambda>k. Inr (k\<lparr>v_plot2 := []\<rparr>))]"

definition cell5_timing :: "world \<Rightarrow> step list" where
  "cell5_timing W =
    [call W New_KernelRidge,
     call W New_SVR,
     run (map (estimator_body W) (estimator_items W)),
     (\<lambda>k. run (map (\<lambda>i k'. case getitem (v_plot2 k') i of
                              Inl e \<Rightarrow> Inl (e, k')
                            | Inr t \<Rightarrow> append_step W (\<lambda>k''. t) 1 2 k')
                 [0..<length (v_plot2 k)]) k),
     layout_step W ''xaxis2'' [(''title'', Str ''Train size''), (''type'', Str ''log'')],
     layout_step W ''yaxis2'' [(''title'', Str ''Time (seconds)''), (''type'', Str ''log'')]]"

definition cell5_learning :: "world \<Rightarrow> step list" where
  "cell5_learning W =
    [ext W New_SVR (\<lambda>j k. Inr (k\<lparr>v_svr :=
       Model (SVR [(''kernel'', Str ''rbf''), (''C'', Num 10), (''gamma'', Num 0.1)]) None\<rparr>)),
     ext W New_KernelRidge (\<lambda>j k. Inr (k\<lparr>v_kr :=
       Model (KernelRidge [(''kernel'', Str ''rbf''), (''alpha'', Num 0.1),
                           (''gamma'', Num 0.1)]) None\<rparr>)),
     learning_step W v_svr (\<lambda>r k. k\<lparr>v_train_sizes := fst r,
        v_train_scores_svr := fst (snd r), v_test_scores_svr := snd (snd r)\<rparr>),
     learning_step W v_kr (\<lambda>r k. k\<lparr>v_train_sizes_abs := fst r,
        v_train_scores_kr := fst (snd r), v_test_scores_kr := snd (snd r)\<rparr>),
     new_scatter W trace7_kwargs (\<lambda>t k. k\<lparr>v_trace7 := t\<rparr>),
     new_scatter W trace8_kwargs (\<lambda>t k. k\<lparr>v_trace8 := t\<rparr>),
     append_step W v_trace7 2 1,
     append_step W v_trace8 2 1,
     layout_step W ''xaxis3'' [(''title'', Str ''Train size'')],
     layout_step W ''yaxis3'' [(''title'', Str ''Mean Squared Error'')],
     ext W LayoutUpdate (\<lambda>j k. Inr (k\<lparr>v_fig := layout_update [(''height'', IntNum 900)] (v_fig k)\<rparr>))]"

definition cell5 :: "world \<Rightarrow> step" where
  "cell5 W = run (cell5_models W @ cell5_sample W @ cell5_timing W @ cell5_learning W)"

subsection \<open>Plot and publish (lines 413 and 496-510)\<close>

definition cell6 :: "world \<Rightarrow> step" where
  "cell6 W = run [call W Iplot]"

definition publish_args :: "pyobj list" where
  "publish_args =
    [Str ''comparision.ipynb'', Str ''scikit-learn/plot-kernel-ridge-regression/'',
     Str ''Plot kernel ridge regression| plotly'', Str '' '']"

definition publish_kwargs :: "(string \<times> pyobj) list" where
  "publish_kwargs =
    [(''title'', Str ''Plot kernel ridge regression | plotly''),
     (''name'', Str ''Comparison of Kernel Ridge Regression and SVR''),
     (''has_thumbnail'', Str ''true''), (''thumbnail'', Str ''thumbnail/kernel-ridge.jpg''),
     (''language'', Str ''scikit-learn''), (''page_type'', Str ''example_index''),
     (''display_as'', Str ''general_examples''), (''order'', IntNum 8),
     (''ipynb'', Str ''~Diksha_Gabha/2659'')]"

text \<open>
  The shell command of line 501 is run by IPython, which keeps its exit status in
  \<^verbatim>\<open>_exit_code\<close> and raises nothing when the command fails; no statement reads the status.
\<close>

definition cell7 :: "world \<Rightarrow> step" where
  "cell7 W = run
    [call W (Import ''IPython.display''),
     call W HTML, call W Display,
     call W HTML, call W Display,
     ext W (Shell ''pip install git+https://github.com/plotly/publisher.git --upgrade'')
       (\<lambda>j k. Inr (k\<lparr>v_exit_code := shell_exit W j\<rparr>)),
     call W (Import ''publisher''),
     ext W Publish (\<lambda>j k. Inr (k\<lparr>published := published k
        @ [publisher W (files W ''comparision.ipynb'') publish_args publish_kwargs]\<rparr>))]"



definition notebook :: "world \<Rightarrow> step" where
  "notebook W = run [cell1 W, cell2 W, cell3 W, cell4 W, cell5 W, cell6 W, cell7 W]"

text \<open>
  The kernel before the first cell: nothing called or printed. The variables are unbound
  in Python; every statement of the notebook reads only variables an earlier statement
  has assigned, so the values the fields start with are never read.
\<close>

definition fresh :: kernel where
  "fresh = \<lparr>calls = [], stdout = [], stderr = [], published = [], v_exit_code = 0,
     v_rng = 0, v_X = [], v_y = [], v_X_plot = [], v_train_size = 0,
     v_svr = Model (SVR []) None, v_kr = Model (SVR []) None, v_t0 = 0,
     v_svr_fit = 0, v_kr_fit = 0, v_sv_ratio = 0, v_y_svr = [], v_y_kr = [],
     v_svr_predict = 0, v_kr_predict = 0,
     v_fig = \<lparr>grid_ref = [], fig_data = [], fig_layout = []\<rparr>, v_sv_ind = [],
     v_trace1 = NoneObj, v_trace2 = NoneObj, v_trace3 = NoneObj, v_trace4 = NoneObj,
     v_sizes = [], v_plot2 = [], v_name = [], v_estimator = Model (SVR []) None,
     v_train_time = [], v_test_time = [], v_train_test_size = 0,
     v_trace5 = NoneObj, v_trace6 = NoneObj, v_train_sizes = [],
     v_train_scores_svr = [], v_test_scores_svr = [], v_train_sizes_abs = [],
     v_train_scores_kr = [], v_test_scores_kr = [], v_trace7 = NoneObj, v_trace8 = NoneObj\<rparr>"

text \<open>
  The kind of operation a call is, by the library called: numpy makes the data,
  scikit-learn builds, fits and applies the estimators, plotly builds and shows the figure,
  the publisher helper publishes; imports, the clock, printing, the display of HTML and
  the shell command are of no such kind. The phases of a list of calls are the kinds of
  its calls in order, the calls of no kind left out and repetitions merged.
\<close>

datatype kind = Generate | FitPredict | Plot | PublishPage | NoKind

fun kind_of :: "api \<Rightarrow> kind" where
  "kind_of RandomState = Generate"
| "kind_of Rand = Generate"
| "kind_of Sin = Generate"
| "kind_of Linspace = Generate"
| "kind_of Logspace = Generate"
| "kind_of New_SVR = FitPredict"
| "kind_of New_KernelRidge = FitPredict"
| "kind_of New_GridSearchCV = FitPredict"
| "kind_of Fit = FitPredict"
| "kind_of Predict = FitPredict"
| "kind_of LearningCurve = FitPredict"
| "kind_of MakeSubplots = Plot"
| "kind_of Scatter = Plot"
| "kind_of LayoutUpdate = Plot"
| "kind_of AppendTrace = Plot"
| "kind_of Iplot = Plot"
| "kind_of Publish = PublishPage"
| "kind_of (Import m) = NoKind"
| "kind_of Time = NoKind"
| "kind_of Print = NoKind"
| "kind_of HTML = NoKind"
| "kind_of Display = NoKind"
| "kind_of (Shell c) = NoKind"

definition phases :: "api list \<Rightarrow> kind list" where
  "phases cs = remdups_adj (filter (\<lambda>x. x \<noteq> NoKind) (map kind_of cs))"

text \<open>
  The kernel state a run leaves behind, whether it ended normally or raised, and the
  states of a run of the whole notebook after the third, fourth, fifth and last cell.
\<close>

definition state_of :: "result \<Rightarrow> kernel" where
  "state_of r = (case r of Inl (e, k) \<Rightarrow> k | Inr k \<Rightarrow> k)"

definition stage3 :: "world \<Rightarrow> kernel \<Rightarrow> kernel" where
  "stage3 W k0 = state_of (run [cell1 W, cell2 W, cell3 W] k0)"

definition stage4 :: "world \<Rightarrow> kernel \<Rightarrow> kernel" where
  "stage4 W k0 = state_of (cell4 W (stage3 W k0))"

definition stage5 :: "world \<Rightarrow> kernel \<Rightarrow> kernel" where
  "stage5 W k0 = state_of (cell5 W (stage4 W k0))"

definition stage7 :: "world \<Rightarrow> kernel \<Rightarrow> kernel" where
  "stage7 W k0 = state_of (run [cell6 W, cell7 W] (stage5 W k0))"

text \<open>
  A world to run the notebook in: no call raises or prints, the first 12000 draws are 1/4
  and the later ones 3/4, the clock advances by one second per call, the shell command
  fails with status 1, the grid search keeps the support vectors 0, 2 and 5, a prediction
  is 0 everywhere and a learning curve has two ticks.
\<close>

definition calm_world :: world where
  "calm_world =
     \<lparr>draws = (\<lambda>n. if n < 12000 then 1 / 4 else 3 / 4), clock = (\<lambda>j. real j),
      raises = (\<lambda>j. None), warnings = (\<lambda>j. []), prints = (\<lambda>j. []),
      shell_exit = (\<lambda>j. 1),
      support = (\<lambda>m. [0, 2, 5]), predict = (\<lambda>m xs. map (\<lambda>x. 0) xs),
      learning_curve = (\<lambda>m xs ys ts. ([10, 20], [[1, 1], [1, 1]], [[2, 4], [6, 8]])),
      krr_first = True, files = (\<lambda>p. None), publisher = (\<lambda>c a kw. [])\<rparr>"

section \<open>Properties of \<^verbatim>\<open>to_plotly\<close>\<close>

lemma to_plotly_loop_numeric:
  "\<lbrakk>set is \<subseteq> {0..<length (var_n s)}; \<forall>v \<in> set (var_n s). numeric v\<rbrakk> \<Longrightarrow>
   to_plotly_loop is s
     = Inr (s\<lparr>var_l := var_l s @ map (\<lambda>i. float_of (var_n s ! i)) is\<rparr>)"
proof (induction "is" arbitrary: s)
  case Nil
  then show ?case by simp
next
  case (Cons i js)
  have i: "i < length (var_n s)" using Cons.prems(1) by simp
  have num: "numeric (var_n s ! i)" using Cons.prems(2) i by simp
  have fl: "pyfloat (var_n s ! i) = Inr (float_of (var_n s ! i))"
    using num by (cases "var_n s ! i" rule: pyfloat.cases) simp_all
  have "to_plotly_loop js (s\<lparr>var_l := var_l s @ [float_of (var_n s ! i)]\<rparr>)
      = Inr (s\<lparr>var_l := var_l s @ [float_of (var_n s ! i)]
                  @ map (\<lambda>i. float_of (var_n s ! i)) js\<rparr>)"
    using Cons.IH [of "s\<lparr>var_l := var_l s @ [float_of (var_n s ! i)]\<rparr>"] Cons.prems
    by simp
  then show ?case using i fl by (simp add: getitem_def)
qed

lemma to_plotly_run_numeric:
  assumes "\<forall>v \<in> set n0. numeric v"
  shows "to_plotly_run n0 = Inr \<lparr>var_n = n0, var_l = map float_of n0\<rparr>"
proof -
  have "to_plotly_loop [0..<length n0] \<lparr>var_n = n0, var_l = []\<rparr>
      = Inr \<lparr>var_n = n0, var_l = map (\<lambda>i. float_of (n0 ! i)) [0..<length n0]\<rparr>"
    using to_plotly_loop_numeric [of "[0..<length n0]" "\<lparr>var_n = n0, var_l = []\<rparr>"] assms
    by simp
  moreover have "map (\<lambda>i. float_of (n0 ! i)) [0..<length n0] = map float_of n0"
    by (rule nth_equalityI) simp_all
  ultimately show ?thesis by (simp add: to_plotly_run_def)
qed


lemma to_plotly_column: "to_plotly (column_items xs) = Inr xs"
proof -
  have "\<forall>v \<in> set (column_items xs). numeric v" by (auto simp: column_items_def)
  then have "to_plotly_run (column_items xs)
      = Inr \<lparr>var_n = column_items xs, var_l = map float_of (column_items xs)\<rparr>"
    by (rule to_plotly_run_numeric)
  moreover have "map float_of (column_items xs) = xs"
    by (simp add: column_items_def comp_def)
  ultimately show ?thesis by (simp add: to_plotly_def)
qed

lemma to_plotly_array: "to_plotly (array_items ys) = Inr ys"
proof -
  have "\<forall>v \<in> set (array_items ys). numeric v" by (auto simp: array_items_def)
  then have "to_plotly_run (array_items ys)
      = Inr \<lparr>var_n = array_items ys, var_l = map float_of (array_items ys)\<rparr>"
    by (rule to_plotly_run_numeric)
  moreover have "map float_of (array_items ys) = ys"
    by (simp add: array_items_def comp_def)
  ultimately show ?thesis by (simp add: to_plotly_def)
qed



section \<open>Running statements when no call raises\<close>

lemma call_quiet:
  "raises W (length (calls k)) = None \<Longrightarrow>
   call W a k = Inr (k\<lparr>calls := calls k @ [a],
                       stdout := stdout k @ map Str (prints W (length (calls k))),
                       stderr := stderr k @ warnings W (length (calls k))\<rparr>)"
  by (simp add: call_def Let_def)

lemma ext_quiet:
  "raises W (length (calls k)) = None \<Longrightarrow>
   ext W a f k = f (length (calls k))
                   (k\<lparr>calls := calls k @ [a],
                      stdout := stdout k @ map Str (prints W (length (calls k))),
                      stderr := stderr k @ warnings W (length (calls k))\<rparr>)"
  by (simp add: ext_def call_quiet)

lemma length_np_rand: "length (np_rand W p m) = m"
  by (simp add: np_rand_def)

lemma nth_np_rand: "i < m \<Longrightarrow> np_rand W p m ! i = draws W (p + i)"
  by (simp add: np_rand_def)

lemma iadd_stride_5:
  "length v = (length ys + 4) div 5 \<Longrightarrow>
   iadd_stride 5 ys v
     = Inr (map (\<lambda>i. if i mod 5 = 0 then ys ! i + v ! (i div 5) else ys ! i) [0..<length ys])"
  by (simp add: iadd_stride_def)

lemma nth_np_rand_div5:
  "i < 10000 \<Longrightarrow> np_rand W p 2000 ! (i div 5) = draws W (p + i div 5)"
  by (rule nth_np_rand) simp

lemma sample_data:
  assumes q: "\<forall>j. raises W j = None"
  shows "\<exists>k1 k. run [gen_X W, gen_y W] k0 = Inr k1
           \<and> length (v_X k1) = 10000
           \<and> (\<forall>i<10000. v_X k1 ! i = 5 * draws W (v_rng k0 + i))
           \<and> v_y k1 = map sin (v_X k1)
           \<and> run [gen_X W, gen_y W, add_noise W] k0 = Inr k
           \<and> v_X k = v_X k1
           \<and> length (v_y k) = 10000
           \<and> (\<forall>i<10000. v_y k ! i =
                  (if i mod 5 = 0
                   then sin (v_X k ! i) + 3 * (0.5 - draws W (v_rng k0 + 10000 + i div 5))
                   else sin (v_X k ! i)))
           \<and> v_rng k = v_rng k0 + 12000
           \<and> calls k = calls k0 @ [Rand, Sin, Rand]"
  using q
  by (simp add: gen_X_def gen_y_def add_noise_def ext_quiet Let_def
         iadd_stride_def length_np_rand nth_np_rand nth_np_rand_div5 del: upt_rec_numeral)


lemma run_append:
  "run (xs @ ys) k = (case run xs k of Inl x \<Rightarrow> Inl x | Inr k' \<Rightarrow> run ys k')"
  by (induction xs arbitrary: k) (simp_all split: sum.splits)

lemma run_single: "run [s] k = s k"
  by (simp split: sum.splits)

section \<open>The generated dataset\<close>

lemma cell3_run:
  "cell3 W = run ([new_rng W] @ [gen_X W, gen_y W, add_noise W] @ [gen_X_plot W])"
  by (simp add: cell3_def)

lemma cell3_data:
  assumes q: "\<forall>j. raises W j = None"
    and d: "\<forall>n. 0 \<le> draws W n \<and> draws W n < 1"
  shows "\<exists>k1 k. run [new_rng W, gen_X W, gen_y W] k0 = Inr k1
           \<and> cell3 W k0 = Inr k
           \<and> length (v_X k) = 10000 \<and> length (v_y k) = 10000
           \<and> (\<forall>i<10000. v_X k ! i = 5 * draws W i \<and> 0 \<le> v_X k ! i \<and> v_X k ! i < 5)
           \<and> v_X k1 = v_X k
           \<and> v_y k1 = map sin (v_X k)
           \<and> (\<forall>i<10000. v_y k ! i =
                  (if i mod 5 = 0
                   then sin (v_X k ! i) + 3 * (0.5 - draws W (10000 + i div 5))
                   else sin (v_X k ! i)))"
proof -
  define k00 where "k00 = k0\<lparr>calls := calls k0 @ [RandomState],
                      stdout := stdout k0 @ map Str (prints W (length (calls k0))),
                      stderr := stderr k0 @ warnings W (length (calls k0)), v_rng := 0\<rparr>"
  have n: "new_rng W k0 = Inr k00"
    using q by (simp add: new_rng_def ext_quiet k00_def)
  have p: "v_rng k00 = 0" by (simp add: k00_def)
  obtain k1 k where
    r1: "run [gen_X W, gen_y W] k00 = Inr k1"
    and lx: "length (v_X k1) = 10000"
    and x: "\<forall>i<10000. v_X k1 ! i = 5 * draws W (v_rng k00 + i)"
    and y1: "v_y k1 = map sin (v_X k1)"
    and r: "run [gen_X W, gen_y W, add_noise W] k00 = Inr k"
    and xx: "v_X k = v_X k1"
    and ly: "length (v_y k) = 10000"
    and y: "\<forall>i<10000. v_y k ! i =
                  (if i mod 5 = 0
                   then sin (v_X k ! i) + 3 * (0.5 - draws W (v_rng k00 + 10000 + i div 5))
                   else sin (v_X k ! i))"
    using sample_data [OF q, of k00] by blast
  have g: "gen_X_plot W k = Inr (k\<lparr>calls := calls k @ [Linspace],
                      stdout := stdout k @ map Str (prints W (length (calls k))),
                      stderr := stderr k @ warnings W (length (calls k)),
                      v_X_plot := np_linspace 0 5 100000\<rparr>)"
    using q by (simp add: gen_X_plot_def ext_quiet)
  have c3: "cell3 W k0 = Inr (k\<lparr>calls := calls k @ [Linspace],
                      stdout := stdout k @ map Str (prints W (length (calls k))),
                      stderr := stderr k @ warnings W (length (calls k)),
                      v_X_plot := np_linspace 0 5 100000\<rparr>)"
    by (simp only: cell3_run run_append run_single n r g sum.case)
  have r1': "run [new_rng W, gen_X W, gen_y W] k0 = Inr k1"
    using n r1 by simp
  have bounds: "\<forall>i<10000. 0 \<le> v_X k1 ! i \<and> v_X k1 ! i < 5"
    using x d by simp
  show ?thesis
    using r1' c3 lx ly x y y1 xx bounds p by simp
qed

text \<open>
  C1. The dataset of the comparison notebook: \<^verbatim>\<open>X\<close> is 10000 values, each 5 times a
  uniform draw from [0, 1) and so in [0, 5); \<^verbatim>\<open>y\<close> is \<^verbatim>\<open>sin\<close> of \<^verbatim>\<open>X\<close>, item by item,
  and the noise is added afterwards and only to some entries (those at the indices
  divisible by 5). This holds for cell 3 (started in any kernel state) and for the same
  three statements at lines 289-291 (where the generator continues its stream).
\<close>

theorem sample_dataset:
  assumes q: "\<forall>j. raises W j = None"
    and d: "\<forall>n. 0 \<le> draws W n \<and> draws W n < 1"
  shows "(\<exists>k1 k. run [new_rng W, gen_X W, gen_y W] k0 = Inr k1
           \<and> cell3 W k0 = Inr k
           \<and> length (v_X k) = 10000 \<and> length (v_y k) = 10000
           \<and> (\<forall>i<10000. v_X k ! i = 5 * draws W i \<and> 0 \<le> v_X k ! i \<and> v_X k ! i < 5)
           \<and> v_X k1 = v_X k
           \<and> v_y k1 = map sin (v_X k)
           \<and> (\<forall>i<10000. v_y k ! i =
                  (if i mod 5 = 0
                   then sin (v_X k ! i) + 3 * (0.5 - draws W (10000 + i div 5))
                   else sin (v_X k ! i))))
       \<and> (\<exists>k1 k. run [gen_X W, gen_y W] k0 = Inr k1
           \<and> run [gen_X W, gen_y W, add_noise W] k0 = Inr k
           \<and> length (v_X k) = 10000 \<and> length (v_y k) = 10000
           \<and> (\<forall>i<10000. v_X k ! i = 5 * draws W (v_rng k0 + i)
                     \<and> 0 \<le> v_X k ! i \<and> v_X k ! i < 5)
           \<and> v_X k1 = v_X k
           \<and> v_y k1 = map sin (v_X k)
           \<and> (\<forall>i<10000. v_y k ! i =
                  (if i mod 5 = 0
                   then sin (v_X k ! i) + 3 * (0.5 - draws W (v_rng k0 + 10000 + i div 5))
                   else sin (v_X k ! i))))"
proof
  show "\<exists>k1 k. run [new_rng W, gen_X W, gen_y W] k0 = Inr k1
           \<and> cell3 W k0 = Inr k
           \<and> length (v_X k) = 10000 \<and> length (v_y k) = 10000
           \<and> (\<forall>i<10000. v_X k ! i = 5 * draws W i \<and> 0 \<le> v_X k ! i \<and> v_X k ! i < 5)
           \<and> v_X k1 = v_X k
           \<and> v_y k1 = map sin (v_X k)
           \<and> (\<forall>i<10000. v_y k ! i =
                  (if i mod 5 = 0
                   then sin (v_X k ! i) + 3 * (0.5 - draws W (10000 + i div 5))
                   else sin (v_X k ! i)))"
    using q d by (rule cell3_data)
next
  obtain k1 k where
    r1: "run [gen_X W, gen_y W] k0 = Inr k1"
    and lx: "length (v_X k1) = 10000"
    and x: "\<forall>i<10000. v_X k1 ! i = 5 * draws W (v_rng k0 + i)"
    and y1: "v_y k1 = map sin (v_X k1)"
    and r: "run [gen_X W, gen_y W, add_noise W] k0 = Inr k"
    and xx: "v_X k = v_X k1"
    and ly: "length (v_y k) = 10000"
    and y: "\<forall>i<10000. v_y k ! i =
                  (if i mod 5 = 0
                   then sin (v_X k ! i) + 3 * (0.5 - draws W (v_rng k0 + 10000 + i div 5))
                   else sin (v_X k ! i))"
    using sample_data [OF q, of k0] by blast
  have bounds: "\<forall>i<10000. 0 \<le> v_X k1 ! i \<and> v_X k1 ! i < 5"
    using x d by simp
  show "\<exists>k1 k. run [gen_X W, gen_y W] k0 = Inr k1
           \<and> run [gen_X W, gen_y W, add_noise W] k0 = Inr k
           \<and> length (v_X k) = 10000 \<and> length (v_y k) = 10000
           \<and> (\<forall>i<10000. v_X k ! i = 5 * draws W (v_rng k0 + i)
                     \<and> 0 \<le> v_X k ! i \<and> v_X k ! i < 5)
           \<and> v_X k1 = v_X k
           \<and> v_y k1 = map sin (v_X k)
           \<and> (\<forall>i<10000. v_y k ! i =
                  (if i mod 5 = 0
                   then sin (v_X k ! i) + 3 * (0.5 - draws W (v_rng k0 + 10000 + i div 5))
                   else sin (v_X k ! i)))"
    using r1 r lx ly x y y1 xx bounds by simp
qed

theorem sample_dataset_witness:
  "\<exists>k. cell3 calm_world fresh = Inr k
     \<and> length (v_X k) = 10000 \<and> length (v_y k) = 10000
     \<and> v_X k ! 7 = 5 / 4 \<and> v_y k ! 7 = sin (5 / 4) \<and> v_y k ! 10 = sin (5 / 4) + 3 / 4"
proof -
  have q: "\<forall>j. raises calm_world j = None" by (simp add: calm_world_def)
  have d: "\<forall>n. 0 \<le> draws calm_world n \<and> draws calm_world n < 1"
    by (simp add: calm_world_def)
  obtain k where c: "cell3 calm_world fresh = Inr k"
    and lx: "length (v_X k) = 10000" and ly: "length (v_y k) = 10000"
    and x: "\<forall>i<10000. v_X k ! i = 5 * draws calm_world i \<and> 0 \<le> v_X k ! i \<and> v_X k ! i < 5"
    and y: "\<forall>i<10000. v_y k ! i =
                  (if i mod 5 = 0
                   then sin (v_X k ! i) + 3 * (0.5 - draws calm_world (10000 + i div 5))
                   else sin (v_X k ! i))"
    using sample_dataset [OF q d, of fresh] by blast
  have x7: "v_X k ! 7 = 5 / 4" and x10: "v_X k ! 10 = 5 / 4"
    using x by (simp_all add: calm_world_def)
  have y7: "v_y k ! 7 = sin (5 / 4)"
    using y [rule_format, of 7] x7 by simp
  have y10: "v_y k ! 10 = sin (5 / 4) + 3 / 4"
    using y [rule_format, of 10] x10 by (simp add: calm_world_def)
  show ?thesis using c lx ly x7 y7 y10 by simp
qed




section \<open>The plotting cell\<close>

lemma np_logspace_7:
  "np_logspace 1 4 7 = [10 powr 1, 10 powr (3 / 2), 10 powr 2, 10 powr (5 / 2), 10 powr 3,
                        10 powr (7 / 2), 10 powr 4]"
  by (simp add: np_logspace_def np_linspace_def upt_rec)

lemma make_subplots_grid:
  "make_subplots 2 2 [[Some [], Some []], [Some [], None]] titles
     = Inr \<lparr>grid_ref = [[Some (''x1'', ''y1''), Some (''x2'', ''y2'')],
                       [Some (''x3'', ''y3''), None]],
            fig_data = [],
            fig_layout =
              [(''xaxis1'', Dict [(''anchor'', Str ''y1'')]),
               (''yaxis1'', Dict [(''anchor'', Str ''x1'')]),
               (''xaxis2'', Dict [(''anchor'', Str ''y2'')]),
               (''yaxis2'', Dict [(''anchor'', Str ''x2'')]),
               (''xaxis3'', Dict [(''anchor'', Str ''y3'')]),
               (''yaxis3'', Dict [(''anchor'', Str ''x3'')]),
               (''annotations'', Lst (map (\<lambda>t. Dict [(''text'', Str t)]) titles))]\<rparr>"
  by (simp add: make_subplots_def axes_layout_def)

lemma map_of_replace:
  "map_of (map (\<lambda>kv. if fst kv = key then (key, v) else kv) d) key'
     = (if key' = key then (if key \<in> set (map fst d) then Some v else None)
        else map_of d key')"
  by (induction d) (auto simp: image_iff, force)

lemma map_of_dict_set:
  "map_of (dict_set key v d) key' = (if key' = key then Some v else map_of d key')"
proof (cases "key \<in> set (map fst d)")
  case True
  then show ?thesis by (simp add: dict_set_def map_of_replace)
next
  case False
  then have "map_of d key = None" by (simp add: map_of_eq_None_iff)
  then show ?thesis using False by (auto simp: dict_set_def map_add_def split: option.splits)
qed

lemma layout_item_update_ok:
  assumes "has_axis f key"
  shows "\<exists>f'. layout_item_update key kwargs f = Inr f'
          \<and> grid_ref f' = grid_ref f \<and> fig_data f' = fig_data f
          \<and> (\<forall>key'. has_axis f' key' = has_axis f key')"
  using assms
  by (auto simp: layout_item_update_def has_axis_def map_of_dict_set
      split: option.splits pyobj.splits)

lemma append_trace_ok:
  assumes "grid_ref f = [[Some (''x1'', ''y1''), Some (''x2'', ''y2'')],
                         [Some (''x3'', ''y3''), None]]"
    and "(row, col, n) \<in> {(1, 1, ''1''), (1, 2, ''2''), (2, 1, ''3'')}"
  shows "append_trace f (Dict kvs) row col
     = Inr (f\<lparr>fig_data := fig_data f
         @ [Dict (dict_set ''yaxis'' (Str (''y'' @ n)) (dict_set ''xaxis'' (Str (''x'' @ n)) kvs))]\<rparr>)"
  using assms by (auto simp: append_trace_def getitem_def)

lemma trace_field_axes:
  assumes "key \<noteq> ''xaxis''" "key \<noteq> ''yaxis''"
  shows "trace_field key (Dict (dict_set ''yaxis'' b (dict_set ''xaxis'' a kvs)))
     = map_of kvs key"
  using assms by (simp add: trace_field_def map_of_dict_set)

lemma trace_axes_set:
  "trace_axes (Dict (dict_set ''yaxis'' b (dict_set ''xaxis'' a kvs))) = (Some a, Some b)"
  by (simp add: trace_axes_def map_of_dict_set)


lemmas cell5_steps =
  new_scatter_def append_step_def layout_step_def
  trace1_kwargs_def trace2_kwargs_def trace3_kwargs_def trace4_kwargs_def
  trace5_kwargs_def trace6_kwargs_def trace7_kwargs_def trace8_kwargs_def
  timing_body_def estimator_body_def estimator_items_def learning_step_def
  gen_X_def gen_y_def add_noise_def set_t0_def elapsed_def

lemma container_py_list: "container_of (py_list l) = PythonList"
  by (simp add: py_list_def)

lemma py_list_inj: "(py_list a = py_list b) = (a = b)"
  by (simp add: py_list_def inj_map_eq_map inj_on_def)


lemma append_trace_11:
  "grid_ref f = [[Some (''x1'', ''y1''), Some (''x2'', ''y2'')], [Some (''x3'', ''y3''), None]]
   \<Longrightarrow> append_trace f (Dict kvs) (Suc 0) (Suc 0)
     = Inr (f\<lparr>fig_data := fig_data f
         @ [Dict (dict_set ''yaxis'' (Str ''y1'') (dict_set ''xaxis'' (Str ''x1'') kvs))]\<rparr>)"
  by (simp add: append_trace_def getitem_def)

lemma append_trace_12:
  "grid_ref f = [[Some (''x1'', ''y1''), Some (''x2'', ''y2'')], [Some (''x3'', ''y3''), None]]
   \<Longrightarrow> append_trace f (Dict kvs) (Suc 0) 2
     = Inr (f\<lparr>fig_data := fig_data f
         @ [Dict (dict_set ''yaxis'' (Str ''y2'') (dict_set ''xaxis'' (Str ''x2'') kvs))]\<rparr>)"
  by (simp add: append_trace_def getitem_def)

lemma append_trace_21:
  "grid_ref f = [[Some (''x1'', ''y1''), Some (''x2'', ''y2'')], [Some (''x3'', ''y3''), None]]
   \<Longrightarrow> append_trace f (Dict kvs) 2 (Suc 0)
     = Inr (f\<lparr>fig_data := fig_data f
         @ [Dict (dict_set ''yaxis'' (Str ''y3'') (dict_set ''xaxis'' (Str ''x3'') kvs))]\<rparr>)"
  by (simp add: append_trace_def getitem_def)

lemma layout_item_update_eq:
  "map_of (fig_layout f) key = Some (Dict d) \<Longrightarrow>
   layout_item_update key kwargs f
     = Inr (f\<lparr>fig_layout := dict_set key (Dict (dict_update d kwargs)) (fig_layout f)\<rparr>)"
  by (simp add: layout_item_update_def)

lemma has_axis_dict_set:
  "has_axis (f\<lparr>fig_layout := dict_set key (Dict d) (fig_layout f)\<rparr>) key'
     = (key' = key \<or> has_axis f key')"
  by (simp add: has_axis_def map_of_dict_set)

lemma models_part:
  assumes q: "\<forall>j. raises W j = None"
    and sx: "list_all (\<lambda>i. i < length (v_X k0)) (support W (v_svr k0))"
    and sy: "list_all (\<lambda>i. i < length (v_y k0)) (support W (v_svr k0))"
  shows "\<exists>k. run (cell5_models W) k0 = Inr k
          \<and> grid_ref (v_fig k) = [[Some (''x1'', ''y1''), Some (''x2'', ''y2'')],
                                    [Some (''x3'', ''y3''), None]]
          \<and> has_axis (v_fig k) ''xaxis2'' \<and> has_axis (v_fig k) ''yaxis2''
          \<and> has_axis (v_fig k) ''xaxis3'' \<and> has_axis (v_fig k) ''yaxis3''
          \<and> map trace_axes (fig_data (v_fig k))
               = [(Some (Str ''x1''), Some (Str ''y1'')), (Some (Str ''x1''), Some (Str ''y1'')),
                  (Some (Str ''x1''), Some (Str ''y1'')), (Some (Str ''x1''), Some (Str ''y1''))]
          \<and> map (trace_field ''x'') (fig_data (v_fig k))
               = [Some (py_list (map (\<lambda>i. v_X k0 ! i) (support W (v_svr k0)))),
                  Some (py_list (slice_to (v_X k0) 100)),
                  Some (py_list (v_X_plot k0)), Some (py_list (v_X_plot k0))]
          \<and> map (trace_field ''y'') (fig_data (v_fig k))
               = [Some (py_list (map (\<lambda>i. v_y k0 ! i) (support W (v_svr k0)))),
                  Some (py_list (slice_to (v_y k0) 100)),
                  Some (py_list (v_y_svr k0)), Some (py_list (v_y_kr k0))]
          \<and> calls k = calls k0 @ [MakeSubplots, Scatter, Scatter, Scatter, Scatter,
                 LayoutUpdate, LayoutUpdate, AppendTrace, AppendTrace, AppendTrace, AppendTrace]
          \<and> v_rng k = v_rng k0 \<and> v_X k = v_X k0 \<and> v_y k = v_y k0
          \<and> v_X_plot k = v_X_plot k0"
  using q sx sy
  by (simp add: cell5_models_def cell5_steps ext_quiet call_quiet take_idx_def
      to_plotly_column to_plotly_array make_subplots_grid
      append_trace_11 layout_item_update_eq has_axis_def map_of_dict_set
      trace_field_axes trace_axes_set trace_field_def
      del: upt_rec_numeral)


lemma sample_part:
  assumes q: "\<forall>j. raises W j = None"
  shows "\<exists>k. run (cell5_sample W) k0 = Inr k
          \<and> v_fig k = v_fig k0
          \<and> v_sizes k = np_logspace 1 4 7
          \<and> v_plot2 k = []
          \<and> calls k = calls k0 @ [Rand, Sin, Rand, Logspace]
          \<and> length (v_X k) = 10000 \<and> length (v_y k) = 10000
          \<and> (\<forall>i<10000. v_X k ! i = 5 * draws W (v_rng k0 + i))
          \<and> (\<forall>i<10000. v_y k ! i =
                  (if i mod 5 = 0
                   then sin (v_X k ! i) + 3 * (0.5 - draws W (v_rng k0 + 10000 + i div 5))
                   else sin (v_X k ! i)))
          \<and> v_rng k = v_rng k0 + 12000
          \<and> v_X_plot k = v_X_plot k0"
  using q
  by (simp add: cell5_sample_def gen_X_def gen_y_def add_noise_def ext_quiet Let_def
         iadd_stride_def length_np_rand nth_np_rand nth_np_rand_div5 del: upt_rec_numeral)

lemma estimator_body_effect:
  assumes q: "\<forall>j. raises W j = None"
    and sz: "v_sizes k0 = [s1, s2, s3, s4, s5, s6, s7]"
  shows "\<exists>k t5 t6. estimator_body W item k0 = Inr k
          \<and> v_plot2 k = v_plot2 k0 @ [Dict t5, Dict t6]
          \<and> map_of t5 ''x'' = Some (NdArray (v_sizes k0))
          \<and> map_of t6 ''x'' = Some (NdArray (v_sizes k0))
          \<and> map_of t5 ''y'' = Some (py_list (v_train_time k))
          \<and> map_of t6 ''y'' = Some (py_list (v_test_time k))
          \<and> length (v_train_time k) = 7 \<and> length (v_test_time k) = 7
          \<and> v_fig k = v_fig k0 \<and> v_sizes k = v_sizes k0
          \<and> calls k = calls k0 @
               [Time, Fit, Time, Time, Predict, Time, Time, Fit, Time, Time, Predict, Time,
                Time, Fit, Time, Time, Predict, Time, Time, Fit, Time, Time, Predict, Time,
                Time, Fit, Time, Time, Predict, Time, Time, Fit, Time, Time, Predict, Time,
                Time, Fit, Time, Time, Predict, Time, Scatter, Scatter]
          \<and> v_rng k = v_rng k0 \<and> v_X k = v_X k0 \<and> v_y k = v_y k0
          \<and> v_X_plot k = v_X_plot k0"
  using q sz
  by (simp add: cell5_steps ext_quiet call_quiet del: upt_rec_numeral)


lemma timing_part:
  assumes q: "\<forall>j. raises W j = None"
    and g: "grid_ref (v_fig k0) = [[Some (''x1'', ''y1''), Some (''x2'', ''y2'')],
                                   [Some (''x3'', ''y3''), None]]"
    and ax: "has_axis (v_fig k0) ''xaxis2''" and ay: "has_axis (v_fig k0) ''yaxis2''"
    and sz: "v_sizes k0 = [s1, s2, s3, s4, s5, s6, s7]"
    and p2: "v_plot2 k0 = []"
  shows "\<exists>k D. run (cell5_timing W) k0 = Inr k
          \<and> fig_data (v_fig k) = fig_data (v_fig k0) @ D
          \<and> map trace_axes D
               = [(Some (Str ''x2''), Some (Str ''y2'')), (Some (Str ''x2''), Some (Str ''y2'')),
                  (Some (Str ''x2''), Some (Str ''y2'')), (Some (Str ''x2''), Some (Str ''y2''))]
          \<and> map (trace_field ''x'') D
               = [Some (NdArray (v_sizes k0)), Some (NdArray (v_sizes k0)),
                  Some (NdArray (v_sizes k0)), Some (NdArray (v_sizes k0))]
          \<and> (\<exists>l5 l6 l7 l8. map (trace_field ''y'') D
               = [Some (py_list l5), Some (py_list l6), Some (py_list l7), Some (py_list l8)]
               \<and> length l5 = 7 \<and> length l6 = 7 \<and> length l7 = 7 \<and> length l8 = 7)
          \<and> grid_ref (v_fig k) = grid_ref (v_fig k0)
          \<and> has_axis (v_fig k) ''xaxis3'' = has_axis (v_fig k0) ''xaxis3''
          \<and> has_axis (v_fig k) ''yaxis3'' = has_axis (v_fig k0) ''yaxis3''
          \<and> calls k = calls k0 @ [New_KernelRidge, New_SVR] @
               [Time, Fit, Time, Time, Predict, Time, Time, Fit, Time, Time, Predict, Time,
                Time, Fit, Time, Time, Predict, Time, Time, Fit, Time, Time, Predict, Time,
                Time, Fit, Time, Time, Predict, Time, Time, Fit, Time, Time, Predict, Time,
                Time, Fit, Time, Time, Predict, Time, Scatter, Scatter] @
               [Time, Fit, Time, Time, Predict, Time, Time, Fit, Time, Time, Predict, Time,
                Time, Fit, Time, Time, Predict, Time, Time, Fit, Time, Time, Predict, Time,
                Time, Fit, Time, Time, Predict, Time, Time, Fit, Time, Time, Predict, Time,
                Time, Fit, Time, Time, Predict, Time, Scatter, Scatter] @
               [AppendTrace, AppendTrace, AppendTrace, AppendTrace, LayoutUpdate, LayoutUpdate]
          \<and> v_rng k = v_rng k0 \<and> v_X k = v_X k0 \<and> v_y k = v_y k0
          \<and> v_X_plot k = v_X_plot k0"
proof -
  let ?loop = "\<lambda>k. run (map (\<lambda>i k'. case getitem (v_plot2 k') i of
                              Inl e \<Rightarrow> Inl (e, k')
                            | Inr t \<Rightarrow> append_step W (\<lambda>k''. t) 1 2 k')
                 [0..<length (v_plot2 k)]) k"
  let ?lay = "[layout_step W ''xaxis2'' [(''title'', Str ''Train size''), (''type'', Str ''log'')],
     layout_step W ''yaxis2'' [(''title'', Str ''Time (seconds)''), (''type'', Str ''log'')]]"
  have split: "cell5_timing W = [call W New_KernelRidge, call W New_SVR]
      @ [run (map (estimator_body W) (estimator_items W))] @ [?loop] @ ?lay"
    by (simp add: cell5_timing_def)
  obtain i1 i2 where items: "estimator_items W = [i1, i2]"
    by (cases "krr_first W") (simp_all add: estimator_items_def)
  have "\<exists>ka. run [call W New_KernelRidge, call W New_SVR] k0 = Inr ka
          \<and> v_plot2 ka = v_plot2 k0 \<and> v_fig ka = v_fig k0 \<and> v_sizes ka = v_sizes k0
          \<and> calls ka = calls k0 @ [New_KernelRidge, New_SVR]
          \<and> v_rng ka = v_rng k0 \<and> v_X ka = v_X k0 \<and> v_y ka = v_y k0
          \<and> v_X_plot ka = v_X_plot k0"
    using q by (simp add: call_quiet)
  then obtain ka where ra: "run [call W New_KernelRidge, call W New_SVR] k0 = Inr ka"
    and a: "v_plot2 ka = v_plot2 k0" "v_fig ka = v_fig k0" "v_sizes ka = v_sizes k0"
      "calls ka = calls k0 @ [New_KernelRidge, New_SVR]"
      "v_rng ka = v_rng k0" "v_X ka = v_X k0" "v_y ka = v_y k0" "v_X_plot ka = v_X_plot k0"
    by blast
  have sza: "v_sizes ka = [s1, s2, s3, s4, s5, s6, s7]" using a sz by simp
  obtain kb t5 t6 where rb: "estimator_body W i1 ka = Inr kb"
    and b: "v_plot2 kb = v_plot2 ka @ [Dict t5, Dict t6]"
      "map_of t5 ''x'' = Some (NdArray (v_sizes ka))"
      "map_of t6 ''x'' = Some (NdArray (v_sizes ka))"
      "map_of t5 ''y'' = Some (py_list (v_train_time kb))"
      "map_of t6 ''y'' = Some (py_list (v_test_time kb))"
      "length (v_train_time kb) = 7" "length (v_test_time kb) = 7"
      "v_fig kb = v_fig ka" "v_sizes kb = v_sizes ka"
      "calls kb = calls ka @
               [Time, Fit, Time, Time, Predict, Time, Time, Fit, Time, Time, Predict, Time,
                Time, Fit, Time, Time, Predict, Time, Time, Fit, Time, Time, Predict, Time,
                Time, Fit, Time, Time, Predict, Time, Time, Fit, Time, Time, Predict, Time,
                Time, Fit, Time, Time, Predict, Time, Scatter, Scatter]"
      "v_rng kb = v_rng ka" "v_X kb = v_X ka" "v_y kb = v_y ka" "v_X_plot kb = v_X_plot ka"
    using estimator_body_effect [OF q sza, of i1] by blast
  have szb: "v_sizes kb = [s1, s2, s3, s4, s5, s6, s7]" using b sza by simp
  obtain kc t5' t6' where rc: "estimator_body W i2 kb = Inr kc"
    and c: "v_plot2 kc = v_plot2 kb @ [Dict t5', Dict t6']"
      "map_of t5' ''x'' = Some (NdArray (v_sizes kb))"
      "map_of t6' ''x'' = Some (NdArray (v_sizes kb))"
      "map_of t5' ''y'' = Some (py_list (v_train_time kc))"
      "map_of t6' ''y'' = Some (py_list (v_test_time kc))"
      "length (v_train_time kc) = 7" "length (v_test_time kc) = 7"
      "v_fig kc = v_fig kb" "v_sizes kc = v_sizes kb"
      "calls kc = calls kb @
               [Time, Fit, Time, Time, Predict, Time, Time, Fit, Time, Time, Predict, Time,
                Time, Fit, Time, Time, Predict, Time, Time, Fit, Time, Time, Predict, Time,
                Time, Fit, Time, Time, Predict, Time, Time, Fit, Time, Time, Predict, Time,
                Time, Fit, Time, Time, Predict, Time, Scatter, Scatter]"
      "v_rng kc = v_rng kb" "v_X kc = v_X kb" "v_y kc = v_y kb" "v_X_plot kc = v_X_plot kb"
    using estimator_body_effect [OF q szb, of i2] by blast
  have rbc: "run [run (map (estimator_body W) (estimator_items W))] ka = Inr kc"
    by (simp add: items rb rc)
  have pc: "v_plot2 kc = [Dict t5, Dict t6, Dict t5', Dict t6']"
    using a b c p2 by simp
  have gc: "grid_ref (v_fig kc) = [[Some (''x1'', ''y1''), Some (''x2'', ''y2'')],
                                   [Some (''x3'', ''y3''), None]]"
    using a b c g by simp
  define ax2 where "ax2 = (\<lambda>t. Dict (dict_set ''yaxis'' (Str ''y2'') (dict_set ''xaxis'' (Str ''x2'') t)))"
  have "\<exists>kd. run [?loop] kc = Inr kd
          \<and> fig_data (v_fig kd) = fig_data (v_fig kc) @ [ax2 t5, ax2 t6, ax2 t5', ax2 t6']
          \<and> grid_ref (v_fig kd) = grid_ref (v_fig kc)
          \<and> fig_layout (v_fig kd) = fig_layout (v_fig kc)
          \<and> calls kd = calls kc @ [AppendTrace, AppendTrace, AppendTrace, AppendTrace]
          \<and> v_rng kd = v_rng kc \<and> v_X kd = v_X kc \<and> v_y kd = v_y kc
          \<and> v_X_plot kd = v_X_plot kc"
    using q pc gc
    by (simp add: append_step_def ext_quiet getitem_def append_trace_12 ax2_def)
  then obtain kd where rd: "run [?loop] kc = Inr kd"
    and d: "fig_data (v_fig kd) = fig_data (v_fig kc) @ [ax2 t5, ax2 t6, ax2 t5', ax2 t6']"
      "grid_ref (v_fig kd) = grid_ref (v_fig kc)"
      "fig_layout (v_fig kd) = fig_layout (v_fig kc)"
      "calls kd = calls kc @ [AppendTrace, AppendTrace, AppendTrace, AppendTrace]"
      "v_rng kd = v_rng kc" "v_X kd = v_X kc" "v_y kd = v_y kc" "v_X_plot kd = v_X_plot kc"
    by blast
  obtain dx dy where dx: "map_of (fig_layout (v_fig kd)) ''xaxis2'' = Some (Dict dx)"
    and dy: "map_of (fig_layout (v_fig kd)) ''yaxis2'' = Some (Dict dy)"
    using ax ay a b c d
    by (auto simp: has_axis_def split: option.splits pyobj.splits)
  have "\<exists>ke. run ?lay kd = Inr ke
          \<and> fig_data (v_fig ke) = fig_data (v_fig kd)
          \<and> grid_ref (v_fig ke) = grid_ref (v_fig kd)
          \<and> has_axis (v_fig ke) ''xaxis3'' = has_axis (v_fig kd) ''xaxis3''
          \<and> has_axis (v_fig ke) ''yaxis3'' = has_axis (v_fig kd) ''yaxis3''
          \<and> calls ke = calls kd @ [LayoutUpdate, LayoutUpdate]
          \<and> v_rng ke = v_rng kd \<and> v_X ke = v_X kd \<and> v_y ke = v_y kd
          \<and> v_X_plot ke = v_X_plot kd"
    using q dx dy
    by (simp add: layout_step_def ext_quiet layout_item_update_eq map_of_dict_set has_axis_def)
  then obtain ke where re: "run ?lay kd = Inr ke"
    and e: "fig_data (v_fig ke) = fig_data (v_fig kd)"
      "grid_ref (v_fig ke) = grid_ref (v_fig kd)"
      "has_axis (v_fig ke) ''xaxis3'' = has_axis (v_fig kd) ''xaxis3''"
      "has_axis (v_fig ke) ''yaxis3'' = has_axis (v_fig kd) ''yaxis3''"
      "calls ke = calls kd @ [LayoutUpdate, LayoutUpdate]"
      "v_rng ke = v_rng kd" "v_X ke = v_X kd" "v_y ke = v_y kd" "v_X_plot ke = v_X_plot kd"
    by blast
  have r: "run (cell5_timing W) k0 = Inr ke"
    by (simp only: split run_append ra rbc rd re sum.case)
  have hx: "has_axis (v_fig kd) ''xaxis3'' = has_axis (v_fig k0) ''xaxis3''"
    and hy: "has_axis (v_fig kd) ''yaxis3'' = has_axis (v_fig k0) ''yaxis3''"
    using a b c d by (simp_all add: has_axis_def)
  show ?thesis
    apply (rule exI [of _ ke])
    apply (rule exI [of _ "[ax2 t5, ax2 t6, ax2 t5', ax2 t6']"])
    using r a b c d e hx hy
    by (simp add: ax2_def trace_axes_set trace_field_axes py_list_inj)
qed

lemma learning_part:
  assumes q: "\<forall>j. raises W j = None"
    and g: "grid_ref (v_fig k0) = [[Some (''x1'', ''y1''), Some (''x2'', ''y2'')],
                                   [Some (''x3'', ''y3''), None]]"
    and ax: "has_axis (v_fig k0) ''xaxis3''" and ay: "has_axis (v_fig k0) ''yaxis3''"
  shows "\<exists>k D. run (cell5_learning W) k0 = Inr k
          \<and> fig_data (v_fig k) = fig_data (v_fig k0) @ D
          \<and> map trace_axes D
               = [(Some (Str ''x3''), Some (Str ''y3'')), (Some (Str ''x3''), Some (Str ''y3''))]
          \<and> map (trace_field ''x'') D
               = [Some (NdArray (v_train_sizes k)), Some (NdArray (v_train_sizes k))]
          \<and> map (trace_field ''y'') D
               = [Some (NdArray (map (\<lambda>row. - mean row) (v_test_scores_svr k))),
                  Some (NdArray (map (\<lambda>row. - mean row) (v_test_scores_kr k)))]
          \<and> grid_ref (v_fig k) = grid_ref (v_fig k0)
          \<and> calls k = calls k0 @ [New_SVR, New_KernelRidge, Linspace, LearningCurve,
               Linspace, LearningCurve, Scatter, Scatter, AppendTrace, AppendTrace,
               LayoutUpdate, LayoutUpdate, LayoutUpdate]
          \<and> v_rng k = v_rng k0 \<and> v_X k = v_X k0 \<and> v_y k = v_y k0
          \<and> v_X_plot k = v_X_plot k0
          \<and> v_svr k = Model (SVR [(''kernel'', Str ''rbf''), (''C'', Num 10), (''gamma'', Num 0.1)]) None
          \<and> v_kr k = Model (KernelRidge [(''kernel'', Str ''rbf''), (''alpha'', Num 0.1),
                           (''gamma'', Num 0.1)]) None"
proof -
  obtain dx dy where dx: "map_of (fig_layout (v_fig k0)) ''xaxis3'' = Some (Dict dx)"
    and dy: "map_of (fig_layout (v_fig k0)) ''yaxis3'' = Some (Dict dy)"
    using ax ay by (auto simp: has_axis_def split: option.splits pyobj.splits)
  show ?thesis
    using q g dx dy
    by (simp add: cell5_learning_def cell5_steps ext_quiet call_quiet
      append_trace_21 layout_item_update_eq layout_update_def map_of_dict_set
      trace_field_axes trace_axes_set trace_field_def)
qed

lemma cell5_effect:
  assumes q: "\<forall>j. raises W j = None"
    and sx: "list_all (\<lambda>i. i < length (v_X k0)) (support W (v_svr k0))"
    and sy: "list_all (\<lambda>i. i < length (v_y k0)) (support W (v_svr k0))"
  shows "\<exists>k. cell5 W k0 = Inr k
          \<and> grid_ref (v_fig k) = [[Some (''x1'', ''y1''), Some (''x2'', ''y2'')],
                                    [Some (''x3'', ''y3''), None]]
          \<and> map trace_axes (fig_data (v_fig k))
               = [(Some (Str ''x1''), Some (Str ''y1'')), (Some (Str ''x1''), Some (Str ''y1'')),
                  (Some (Str ''x1''), Some (Str ''y1'')), (Some (Str ''x1''), Some (Str ''y1'')),
                  (Some (Str ''x2''), Some (Str ''y2'')), (Some (Str ''x2''), Some (Str ''y2'')),
                  (Some (Str ''x2''), Some (Str ''y2'')), (Some (Str ''x2''), Some (Str ''y2'')),
                  (Some (Str ''x3''), Some (Str ''y3'')), (Some (Str ''x3''), Some (Str ''y3''))]
          \<and> map (trace_field ''x'') (fig_data (v_fig k))
               = [Some (py_list (map (\<lambda>i. v_X k0 ! i) (support W (v_svr k0)))),
                  Some (py_list (slice_to (v_X k0) 100)),
                  Some (py_list (v_X_plot k0)), Some (py_list (v_X_plot k0)),
                  Some (NdArray (np_logspace 1 4 7)), Some (NdArray (np_logspace 1 4 7)),
                  Some (NdArray (np_logspace 1 4 7)), Some (NdArray (np_logspace 1 4 7)),
                  Some (NdArray (v_train_sizes k)), Some (NdArray (v_train_sizes k))]
          \<and> (\<exists>l5 l6 l7 l8. map (trace_field ''y'') (fig_data (v_fig k))
               = [Some (py_list (map (\<lambda>i. v_y k0 ! i) (support W (v_svr k0)))),
                  Some (py_list (slice_to (v_y k0) 100)),
                  Some (py_list (v_y_svr k0)), Some (py_list (v_y_kr k0)),
                  Some (py_list l5), Some (py_list l6), Some (py_list l7), Some (py_list l8),
                  Some (NdArray (map (\<lambda>row. - mean row) (v_test_scores_svr k))),
                  Some (NdArray (map (\<lambda>row. - mean row) (v_test_scores_kr k)))]
               \<and> length l5 = 7 \<and> length l6 = 7 \<and> length l7 = 7 \<and> length l8 = 7)
          \<and> calls k = calls k0 @ [MakeSubplots, Scatter, Scatter, Scatter, Scatter,
                 LayoutUpdate, LayoutUpdate, AppendTrace, AppendTrace, AppendTrace, AppendTrace]
               @ [Rand, Sin, Rand, Logspace] @ [New_KernelRidge, New_SVR] @
               [Time, Fit, Time, Time, Predict, Time, Time, Fit, Time, Time, Predict, Time,
                Time, Fit, Time, Time, Predict, Time, Time, Fit, Time, Time, Predict, Time,
                Time, Fit, Time, Time, Predict, Time, Time, Fit, Time, Time, Predict, Time,
                Time, Fit, Time, Time, Predict, Time, Scatter, Scatter] @
               [Time, Fit, Time, Time, Predict, Time, Time, Fit, Time, Time, Predict, Time,
                Time, Fit, Time, Time, Predict, Time, Time, Fit, Time, Time, Predict, Time,
                Time, Fit, Time, Time, Predict, Time, Time, Fit, Time, Time, Predict, Time,
                Time, Fit, Time, Time, Predict, Time, Scatter, Scatter] @
               [AppendTrace, AppendTrace, AppendTrace, AppendTrace, LayoutUpdate, LayoutUpdate]
               @ [New_SVR, New_KernelRidge, Linspace, LearningCurve,
               Linspace, LearningCurve, Scatter, Scatter, AppendTrace, AppendTrace,
               LayoutUpdate, LayoutUpdate, LayoutUpdate]
          \<and> length (v_X k) = 10000 \<and> length (v_y k) = 10000
          \<and> (\<forall>i<10000. v_X k ! i = 5 * draws W (v_rng k0 + i))
          \<and> (\<forall>i<10000. v_y k ! i =
                  (if i mod 5 = 0
                   then sin (v_X k ! i) + 3 * (0.5 - draws W (v_rng k0 + 10000 + i div 5))
                   else sin (v_X k ! i)))
          \<and> v_rng k = v_rng k0 + 12000
          \<and> v_X_plot k = v_X_plot k0
          \<and> v_svr k = Model (SVR [(''kernel'', Str ''rbf''), (''C'', Num 10), (''gamma'', Num 0.1)]) None
          \<and> v_kr k = Model (KernelRidge [(''kernel'', Str ''rbf''), (''alpha'', Num 0.1),
                           (''gamma'', Num 0.1)]) None"
proof -
  obtain k1 where A1: "run (cell5_models W) k0 = Inr k1
          \<and> grid_ref (v_fig k1) = [[Some (''x1'', ''y1''), Some (''x2'', ''y2'')],
                                    [Some (''x3'', ''y3''), None]]
          \<and> has_axis (v_fig k1) ''xaxis2'' \<and> has_axis (v_fig k1) ''yaxis2''
          \<and> has_axis (v_fig k1) ''xaxis3'' \<and> has_axis (v_fig k1) ''yaxis3''
          \<and> map trace_axes (fig_data (v_fig k1))
               = [(Some (Str ''x1''), Some (Str ''y1'')), (Some (Str ''x1''), Some (Str ''y1'')),
                  (Some (Str ''x1''), Some (Str ''y1'')), (Some (Str ''x1''), Some (Str ''y1''))]
          \<and> map (trace_field ''x'') (fig_data (v_fig k1))
               = [Some (py_list (map (\<lambda>i. v_X k0 ! i) (support W (v_svr k0)))),
                  Some (py_list (slice_to (v_X k0) 100)),
                  Some (py_list (v_X_plot k0)), Some (py_list (v_X_plot k0))]
          \<and> map (trace_field ''y'') (fig_data (v_fig k1))
               = [Some (py_list (map (\<lambda>i. v_y k0 ! i) (support W (v_svr k0)))),
                  Some (py_list (slice_to (v_y k0) 100)),
                  Some (py_list (v_y_svr k0)), Some (py_list (v_y_kr k0))]
          \<and> calls k1 = calls k0 @ [MakeSubplots, Scatter, Scatter, Scatter, Scatter,
                 LayoutUpdate, LayoutUpdate, AppendTrace, AppendTrace, AppendTrace, AppendTrace]
          \<and> v_rng k1 = v_rng k0 \<and> v_X k1 = v_X k0 \<and> v_y k1 = v_y k0
          \<and> v_X_plot k1 = v_X_plot k0"
    using models_part [OF q sx sy] ..
  have r1: "run (cell5_models W) k0 = Inr k1"
    and m: "grid_ref (v_fig k1) = [[Some (''x1'', ''y1''), Some (''x2'', ''y2'')],
                                    [Some (''x3'', ''y3''), None]]"
      "has_axis (v_fig k1) ''xaxis2''" "has_axis (v_fig k1) ''yaxis2''"
      "has_axis (v_fig k1) ''xaxis3''" "has_axis (v_fig k1) ''yaxis3''"
      "map trace_axes (fig_data (v_fig k1))
               = [(Some (Str ''x1''), Some (Str ''y1'')), (Some (Str ''x1''), Some (Str ''y1'')),
                  (Some (Str ''x1''), Some (Str ''y1'')), (Some (Str ''x1''), Some (Str ''y1''))]"
      "map (trace_field ''x'') (fig_data (v_fig k1))
               = [Some (py_list (map (\<lambda>i. v_X k0 ! i) (support W (v_svr k0)))),
                  Some (py_list (slice_to (v_X k0) 100)),
                  Some (py_list (v_X_plot k0)), Some (py_list (v_X_plot k0))]"
      "map (trace_field ''y'') (fig_data (v_fig k1))
               = [Some (py_list (map (\<lambda>i. v_y k0 ! i) (support W (v_svr k0)))),
                  Some (py_list (slice_to (v_y k0) 100)),
                  Some (py_list (v_y_svr k0)), Some (py_list (v_y_kr k0))]"
      "calls k1 = calls k0 @ [MakeSubplots, Scatter, Scatter, Scatter, Scatter,
                 LayoutUpdate, LayoutUpdate, AppendTrace, AppendTrace, AppendTrace, AppendTrace]"
      "v_rng k1 = v_rng k0" "v_X_plot k1 = v_X_plot k0"
    using A1 by simp_all
  obtain k2 where A2: "run (cell5_sample W) k1 = Inr k2
          \<and> v_fig k2 = v_fig k1
          \<and> v_sizes k2 = np_logspace 1 4 7
          \<and> v_plot2 k2 = []
          \<and> calls k2 = calls k1 @ [Rand, Sin, Rand, Logspace]
          \<and> length (v_X k2) = 10000 \<and> length (v_y k2) = 10000
          \<and> (\<forall>i<10000. v_X k2 ! i = 5 * draws W (v_rng k1 + i))
          \<and> (\<forall>i<10000. v_y k2 ! i =
                  (if i mod 5 = 0
                   then sin (v_X k2 ! i) + 3 * (0.5 - draws W (v_rng k1 + 10000 + i div 5))
                   else sin (v_X k2 ! i)))
          \<and> v_rng k2 = v_rng k1 + 12000
          \<and> v_X_plot k2 = v_X_plot k1"
    using sample_part [OF q, of k1] ..
  have r2: "run (cell5_sample W) k1 = Inr k2"
    and s: "v_fig k2 = v_fig k1" "v_sizes k2 = np_logspace 1 4 7" "v_plot2 k2 = []"
      "calls k2 = calls k1 @ [Rand, Sin, Rand, Logspace]"
      "length (v_X k2) = 10000" "length (v_y k2) = 10000"
      "\<forall>i<10000. v_X k2 ! i = 5 * draws W (v_rng k1 + i)"
      "\<forall>i<10000. v_y k2 ! i =
                  (if i mod 5 = 0
                   then sin (v_X k2 ! i) + 3 * (0.5 - draws W (v_rng k1 + 10000 + i div 5))
                   else sin (v_X k2 ! i))"
      "v_rng k2 = v_rng k1 + 12000" "v_X_plot k2 = v_X_plot k1"
    using A2 by simp_all
  have g2: "grid_ref (v_fig k2) = [[Some (''x1'', ''y1''), Some (''x2'', ''y2'')],
                                    [Some (''x3'', ''y3''), None]]"
    and h2: "has_axis (v_fig k2) ''xaxis2''" "has_axis (v_fig k2) ''yaxis2''"
    using m(1,2,3) s(1) by simp_all
  have sz2: "v_sizes k2 = [10 powr 1, 10 powr (3 / 2), 10 powr 2, 10 powr (5 / 2), 10 powr 3,
                        10 powr (7 / 2), 10 powr 4]"
    using s(2) by (simp only: np_logspace_7)
  from timing_part [OF q g2 h2 sz2 s(3)]
  obtain k3 D3 where A3: "run (cell5_timing W) k2 = Inr k3
          \<and> fig_data (v_fig k3) = fig_data (v_fig k2) @ D3
          \<and> map trace_axes D3
               = [(Some (Str ''x2''), Some (Str ''y2'')), (Some (Str ''x2''), Some (Str ''y2'')),
                  (Some (Str ''x2''), Some (Str ''y2'')), (Some (Str ''x2''), Some (Str ''y2''))]
          \<and> map (trace_field ''x'') D3
               = [Some (NdArray (v_sizes k2)), Some (NdArray (v_sizes k2)),
                  Some (NdArray (v_sizes k2)), Some (NdArray (v_sizes k2))]
          \<and> (\<exists>l5 l6 l7 l8. map (trace_field ''y'') D3
               = [Some (py_list l5), Some (py_list l6), Some (py_list l7), Some (py_list l8)]
               \<and> length l5 = 7 \<and> length l6 = 7 \<and> length l7 = 7 \<and> length l8 = 7)
          \<and> grid_ref (v_fig k3) = grid_ref (v_fig k2)
          \<and> has_axis (v_fig k3) ''xaxis3'' = has_axis (v_fig k2) ''xaxis3''
          \<and> has_axis (v_fig k3) ''yaxis3'' = has_axis (v_fig k2) ''yaxis3''
          \<and> calls k3 = calls k2 @ [New_KernelRidge, New_SVR] @
               [Time, Fit, Time, Time, Predict, Time, Time, Fit, Time, Time, Predict, Time,
                Time, Fit, Time, Time, Predict, Time, Time, Fit, Time, Time, Predict, Time,
                Time, Fit, Time, Time, Predict, Time, Time, Fit, Time, Time, Predict, Time,
                Time, Fit, Time, Time, Predict, Time, Scatter, Scatter] @
               [Time, Fit, Time, Time, Predict, Time, Time, Fit, Time, Time, Predict, Time,
                Time, Fit, Time, Time, Predict, Time, Time, Fit, Time, Time, Predict, Time,
                Time, Fit, Time, Time, Predict, Time, Time, Fit, Time, Time, Predict, Time,
                Time, Fit, Time, Time, Predict, Time, Scatter, Scatter] @
               [AppendTrace, AppendTrace, AppendTrace, AppendTrace, LayoutUpdate, LayoutUpdate]
          \<and> v_rng k3 = v_rng k2 \<and> v_X k3 = v_X k2 \<and> v_y k3 = v_y k2
          \<and> v_X_plot k3 = v_X_plot k2"
    by (elim exE)
  have r3: "run (cell5_timing W) k2 = Inr k3"
    and t: "fig_data (v_fig k3) = fig_data (v_fig k2) @ D3"
      "map trace_axes D3
               = [(Some (Str ''x2''), Some (Str ''y2'')), (Some (Str ''x2''), Some (Str ''y2'')),
                  (Some (Str ''x2''), Some (Str ''y2'')), (Some (Str ''x2''), Some (Str ''y2''))]"
      "map (trace_field ''x'') D3
               = [Some (NdArray (v_sizes k2)), Some (NdArray (v_sizes k2)),
                  Some (NdArray (v_sizes k2)), Some (NdArray (v_sizes k2))]"
      "\<exists>l5 l6 l7 l8. map (trace_field ''y'') D3
               = [Some (py_list l5), Some (py_list l6), Some (py_list l7), Some (py_list l8)]
               \<and> length l5 = 7 \<and> length l6 = 7 \<and> length l7 = 7 \<and> length l8 = 7"
      "grid_ref (v_fig k3) = grid_ref (v_fig k2)"
      "has_axis (v_fig k3) ''xaxis3'' = has_axis (v_fig k2) ''xaxis3''"
      "has_axis (v_fig k3) ''yaxis3'' = has_axis (v_fig k2) ''yaxis3''"
      "calls k3 = calls k2 @ [New_KernelRidge, New_SVR] @
               [Time, Fit, Time, Time, Predict, Time, Time, Fit, Time, Time, Predict, Time,
                Time, Fit, Time, Time, Predict, Time, Time, Fit, Time, Time, Predict, Time,
                Time, Fit, Time, Time, Predict, Time, Time, Fit, Time, Time, Predict, Time,
                Time, Fit, Time, Time, Predict, Time, Scatter, Scatter] @
               [Time, Fit, Time, Time, Predict, Time, Time, Fit, Time, Time, Predict, Time,
                Time, Fit, Time, Time, Predict, Time, Time, Fit, Time, Time, Predict, Time,
                Time, Fit, Time, Time, Predict, Time, Time, Fit, Time, Time, Predict, Time,
                Time, Fit, Time, Time, Predict, Time, Scatter, Scatter] @
               [AppendTrace, AppendTrace, AppendTrace, AppendTrace, LayoutUpdate, LayoutUpdate]"
      "v_rng k3 = v_rng k2" "v_X k3 = v_X k2" "v_y k3 = v_y k2" "v_X_plot k3 = v_X_plot k2"
    using A3 by simp_all
  have g3: "grid_ref (v_fig k3) = [[Some (''x1'', ''y1''), Some (''x2'', ''y2'')],
                                    [Some (''x3'', ''y3''), None]]"
    and h3: "has_axis (v_fig k3) ''xaxis3''" "has_axis (v_fig k3) ''yaxis3''"
    using m(1,4,5) s(1) t(5,6,7) by simp_all
  from learning_part [OF q g3 h3]
  obtain k4 D4 where A4: "run (cell5_learning W) k3 = Inr k4
          \<and> fig_data (v_fig k4) = fig_data (v_fig k3) @ D4
          \<and> map trace_axes D4
               = [(Some (Str ''x3''), Some (Str ''y3'')), (Some (Str ''x3''), Some (Str ''y3''))]
          \<and> map (trace_field ''x'') D4
               = [Some (NdArray (v_train_sizes k4)), Some (NdArray (v_train_sizes k4))]
          \<and> map (trace_field ''y'') D4
               = [Some (NdArray (map (\<lambda>row. - mean row) (v_test_scores_svr k4))),
                  Some (NdArray (map (\<lambda>row. - mean row) (v_test_scores_kr k4)))]
          \<and> grid_ref (v_fig k4) = grid_ref (v_fig k3)
          \<and> calls k4 = calls k3 @ [New_SVR, New_KernelRidge, Linspace, LearningCurve,
               Linspace, LearningCurve, Scatter, Scatter, AppendTrace, AppendTrace,
               LayoutUpdate, LayoutUpdate, LayoutUpdate]
          \<and> v_rng k4 = v_rng k3 \<and> v_X k4 = v_X k3 \<and> v_y k4 = v_y k3
          \<and> v_X_plot k4 = v_X_plot k3
          \<and> v_svr k4 = Model (SVR [(''kernel'', Str ''rbf''), (''C'', Num 10), (''gamma'', Num 0.1)]) None
          \<and> v_kr k4 = Model (KernelRidge [(''kernel'', Str ''rbf''), (''alpha'', Num 0.1),
                           (''gamma'', Num 0.1)]) None"
    by (elim exE)
  have r4: "run (cell5_learning W) k3 = Inr k4"
    and l: "fig_data (v_fig k4) = fig_data (v_fig k3) @ D4"
      "map trace_axes D4
               = [(Some (Str ''x3''), Some (Str ''y3'')), (Some (Str ''x3''), Some (Str ''y3''))]"
      "map (trace_field ''x'') D4
               = [Some (NdArray (v_train_sizes k4)), Some (NdArray (v_train_sizes k4))]"
      "map (trace_field ''y'') D4
               = [Some (NdArray (map (\<lambda>row. - mean row) (v_test_scores_svr k4))),
                  Some (NdArray (map (\<lambda>row. - mean row) (v_test_scores_kr k4)))]"
      "grid_ref (v_fig k4) = grid_ref (v_fig k3)"
      "calls k4 = calls k3 @ [New_SVR, New_KernelRidge, Linspace, LearningCurve,
               Linspace, LearningCurve, Scatter, Scatter, AppendTrace, AppendTrace,
               LayoutUpdate, LayoutUpdate, LayoutUpdate]"
      "v_rng k4 = v_rng k3" "v_X k4 = v_X k3" "v_y k4 = v_y k3" "v_X_plot k4 = v_X_plot k3"
      "v_svr k4 = Model (SVR [(''kernel'', Str ''rbf''), (''C'', Num 10), (''gamma'', Num 0.1)]) None"
      "v_kr k4 = Model (KernelRidge [(''kernel'', Str ''rbf''), (''alpha'', Num 0.1),
                           (''gamma'', Num 0.1)]) None"
    using A4 by simp_all
  have r: "cell5 W k0 = Inr k4"
    by (simp only: cell5_def run_append r1 r2 r3 r4 sum.case)
  have data: "fig_data (v_fig k4) = fig_data (v_fig k1) @ D3 @ D4"
    using s t l by simp
  have len1: "length (fig_data (v_fig k1)) = 4"
  proof -
    have "length (map trace_axes (fig_data (v_fig k1))) = 4" by (simp only: m(6)) simp
    then show ?thesis by simp
  qed
  have c1: "grid_ref (v_fig k4) = [[Some (''x1'', ''y1''), Some (''x2'', ''y2'')],
                                    [Some (''x3'', ''y3''), None]]"
    using m(1) s(1) t(5) l(5) by simp
  have c2: "map trace_axes (fig_data (v_fig k4))
               = [(Some (Str ''x1''), Some (Str ''y1'')), (Some (Str ''x1''), Some (Str ''y1'')),
                  (Some (Str ''x1''), Some (Str ''y1'')), (Some (Str ''x1''), Some (Str ''y1'')),
                  (Some (Str ''x2''), Some (Str ''y2'')), (Some (Str ''x2''), Some (Str ''y2'')),
                  (Some (Str ''x2''), Some (Str ''y2'')), (Some (Str ''x2''), Some (Str ''y2'')),
                  (Some (Str ''x3''), Some (Str ''y3'')), (Some (Str ''x3''), Some (Str ''y3''))]"
    using data m(6) t(2) l(2) by simp
  have c3: "map (trace_field ''x'') (fig_data (v_fig k4))
               = [Some (py_list (map (\<lambda>i. v_X k0 ! i) (support W (v_svr k0)))),
                  Some (py_list (slice_to (v_X k0) 100)),
                  Some (py_list (v_X_plot k0)), Some (py_list (v_X_plot k0)),
                  Some (NdArray (np_logspace 1 4 7)), Some (NdArray (np_logspace 1 4 7)),
                  Some (NdArray (np_logspace 1 4 7)), Some (NdArray (np_logspace 1 4 7)),
                  Some (NdArray (v_train_sizes k4)), Some (NdArray (v_train_sizes k4))]"
    using data m(7) t(3) l(3) s(2) by simp
  obtain l5 l6 l7 l8 where ly: "map (trace_field ''y'') D3
               = [Some (py_list l5), Some (py_list l6), Some (py_list l7), Some (py_list l8)]"
    and ll: "length l5 = 7" "length l6 = 7" "length l7 = 7" "length l8 = 7"
    using t(4) by (elim exE conjE)
  have c4: "map (trace_field ''y'') (fig_data (v_fig k4))
               = [Some (py_list (map (\<lambda>i. v_y k0 ! i) (support W (v_svr k0)))),
                  Some (py_list (slice_to (v_y k0) 100)),
                  Some (py_list (v_y_svr k0)), Some (py_list (v_y_kr k0)),
                  Some (py_list l5), Some (py_list l6), Some (py_list l7), Some (py_list l8),
                  Some (NdArray (map (\<lambda>row. - mean row) (v_test_scores_svr k4))),
                  Some (NdArray (map (\<lambda>row. - mean row) (v_test_scores_kr k4)))]"
    using data m(8) ly l(4) by simp
  have c5: "\<exists>l5 l6 l7 l8. map (trace_field ''y'') (fig_data (v_fig k4))
               = [Some (py_list (map (\<lambda>i. v_y k0 ! i) (support W (v_svr k0)))),
                  Some (py_list (slice_to (v_y k0) 100)),
                  Some (py_list (v_y_svr k0)), Some (py_list (v_y_kr k0)),
                  Some (py_list l5), Some (py_list l6), Some (py_list l7), Some (py_list l8),
                  Some (NdArray (map (\<lambda>row. - mean row) (v_test_scores_svr k4))),
                  Some (NdArray (map (\<lambda>row. - mean row) (v_test_scores_kr k4)))]
               \<and> length l5 = 7 \<and> length l6 = 7 \<and> length l7 = 7 \<and> length l8 = 7"
    apply (rule exI [of _ l5], rule exI [of _ l6], rule exI [of _ l7], rule exI [of _ l8])
    apply (intro conjI)
    apply (rule c4 ll)+
    done
  have c6: "calls k4 = calls k0 @ [MakeSubplots, Scatter, Scatter, Scatter, Scatter,
                 LayoutUpdate, LayoutUpdate, AppendTrace, AppendTrace, AppendTrace, AppendTrace]
               @ [Rand, Sin, Rand, Logspace] @ [New_KernelRidge, New_SVR] @
               [Time, Fit, Time, Time, Predict, Time, Time, Fit, Time, Time, Predict, Time,
                Time, Fit, Time, Time, Predict, Time, Time, Fit, Time, Time, Predict, Time,
                Time, Fit, Time, Time, Predict, Time, Time, Fit, Time, Time, Predict, Time,
                Time, Fit, Time, Time, Predict, Time, Scatter, Scatter] @
               [Time, Fit, Time, Time, Predict, Time, Time, Fit, Time, Time, Predict, Time,
                Time, Fit, Time, Time, Predict, Time, Time, Fit, Time, Time, Predict, Time,
                Time, Fit, Time, Time, Predict, Time, Time, Fit, Time, Time, Predict, Time,
                Time, Fit, Time, Time, Predict, Time, Scatter, Scatter] @
               [AppendTrace, AppendTrace, AppendTrace, AppendTrace, LayoutUpdate, LayoutUpdate]
               @ [New_SVR, New_KernelRidge, Linspace, LearningCurve,
               Linspace, LearningCurve, Scatter, Scatter, AppendTrace, AppendTrace,
               LayoutUpdate, LayoutUpdate, LayoutUpdate]"
    using m(9) s(4) t(8) l(6) by simp
  have c7: "length (v_X k4) = 10000" "length (v_y k4) = 10000"
    "v_rng k4 = v_rng k0 + 12000" "v_X_plot k4 = v_X_plot k0"
    using m(10,11) s(5,6,9,10) t(9,10,11,12) l(7,8,9,10) by simp_all
  have c8: "\<forall>i<10000. v_X k4 ! i = 5 * draws W (v_rng k0 + i)"
    using s(7) m(10) t(10) l(8) by simp
  have c9: "\<forall>i<10000. v_y k4 ! i =
                  (if i mod 5 = 0
                   then sin (v_X k4 ! i) + 3 * (0.5 - draws W (v_rng k0 + 10000 + i div 5))
                   else sin (v_X k4 ! i))"
    using s(8) m(10) t(10,11) l(8,9) by simp
  show ?thesis
    apply (rule exI [of _ k4])
    apply (intro conjI)
    apply (rule r c1 c2 c3 c5 c6 c7 c8 c9 l(11) l(12))+
    done
qed

section \<open>The other cells\<close>

lemma cell12_effect:
  assumes q: "\<forall>j. raises W j = None"
  shows "\<exists>k. run [cell1 W, cell2 W] k0 = Inr k
          \<and> calls k = calls k0 @ [Import ''sklearn'', Import ''plotly.plotly'',
               Import ''plotly.graph_objs'', Import ''plotly'', Import ''__future__'',
               Import ''time'', Import ''numpy'', Import ''sklearn.svm'',
               Import ''sklearn.model_selection'', Import ''sklearn.model_selection'',
               Import ''sklearn.kernel_ridge'']
          \<and> published k = published k0"
  using q by (simp add: cell1_def cell2_def call_quiet)

lemma cell3_effect:
  assumes q: "\<forall>j. raises W j = None"
  shows "\<exists>k1 k. run [new_rng W, gen_X W, gen_y W] k0 = Inr k1
           \<and> cell3 W k0 = Inr k
           \<and> length (v_X k) = 10000 \<and> length (v_y k) = 10000
           \<and> (\<forall>i<10000. v_X k ! i = 5 * draws W i)
           \<and> v_X k1 = v_X k
           \<and> v_y k1 = map sin (v_X k)
           \<and> (\<forall>i<10000. v_y k ! i =
                  (if i mod 5 = 0
                   then sin (v_X k ! i) + 3 * (0.5 - draws W (10000 + i div 5))
                   else sin (v_X k ! i)))
           \<and> v_rng k = 12000
           \<and> v_X_plot k = np_linspace 0 5 100000
           \<and> calls k = calls k0 @ [RandomState, Rand, Sin, Rand, Linspace]
           \<and> published k = published k0"
  using q
  by (simp add: cell3_def new_rng_def gen_X_plot_def gen_X_def gen_y_def add_noise_def
         ext_quiet Let_def iadd_stride_def length_np_rand nth_np_rand nth_np_rand_div5
         del: upt_rec_numeral)

lemma cell4_effect:
  assumes q: "\<forall>j. raises W j = None"
  shows "\<exists>k. cell4 W k0 = Inr k
          \<and> calls k = calls k0 @ [New_SVR, Logspace, New_GridSearchCV,
               New_KernelRidge, Logspace, New_GridSearchCV,
               Time, Fit, Time, Print, Time, Fit, Time, Print, Print,
               Time, Predict, Time, Print, Time, Predict, Time, Print]
          \<and> v_X k = v_X k0 \<and> v_y k = v_y k0 \<and> v_rng k = v_rng k0
          \<and> v_X_plot k = v_X_plot k0
          \<and> v_svr k = Model (GridSearchCV (SVR [(''kernel'', Str ''rbf''), (''gamma'', Num 0.1)])
                [(''cv'', IntNum 5),
                 (''param_grid'', Dict [(''C'', Lst [Num 1, Num 10, Num 100, Num 1000]),
                                        (''gamma'', NdArray (np_logspace (- 2) 2 5))])])
             (Some (slice_to (v_X k0) 100, slice_to (v_y k0) 100))
          \<and> v_y_svr k = predict W (v_svr k) (v_X_plot k0)
          \<and> v_y_kr k = predict W (v_kr k) (v_X_plot k0)
          \<and> published k = published k0"
  using q
  by (simp add: cell4_def print_fmt_def set_t0_def elapsed_def ext_quiet call_quiet fit_def
      del: upt_rec_numeral)

lemma cell67_effect:
  assumes q: "\<forall>j. raises W j = None"
  shows "\<exists>k. run [cell6 W, cell7 W] k0 = Inr k
          \<and> calls k = calls k0 @ [Iplot, Import ''IPython.display'', HTML, Display, HTML,
               Display, Shell ''pip install git+https://github.com/plotly/publisher.git --upgrade'',
               Import ''publisher'', Publish]
          \<and> v_fig k = v_fig k0 \<and> v_X k = v_X k0 \<and> v_y k = v_y k0 \<and> v_rng k = v_rng k0
          \<and> v_svr k = v_svr k0 \<and> v_kr k = v_kr k0
          \<and> published k = published k0
               @ [publisher W (files W ''comparision.ipynb'') publish_args publish_kwargs]
          \<and> v_exit_code k = shell_exit W (length (calls k0) + 6)"
  using q by (simp add: cell6_def cell7_def ext_quiet call_quiet eval_nat_numeral)

section \<open>The whole notebook\<close>

lemma state_of_Inr: "r = Inr k \<Longrightarrow> state_of r = k"
  by (simp add: state_of_def)

lemma ex_state_of:
  "\<exists>k. r = Inr k \<and> P k \<Longrightarrow> r = Inr (state_of r) \<and> P (state_of r)"
  by (auto simp: state_of_def)

lemma support_bound:
  "list_all (\<lambda>i. i < 100) xs \<Longrightarrow> list_all (\<lambda>i. i < (10000::nat)) xs"
  by (induction xs) auto

lemma cells123_effect:
  assumes q: "\<forall>j. raises W j = None"
  shows "\<exists>k. run [cell1 W, cell2 W, cell3 W] k0 = Inr k
           \<and> length (v_X k) = 10000 \<and> length (v_y k) = 10000
           \<and> (\<forall>i<10000. v_X k ! i = 5 * draws W i)
           \<and> (\<forall>i<10000. v_y k ! i =
                  (if i mod 5 = 0
                   then sin (v_X k ! i) + 3 * (0.5 - draws W (10000 + i div 5))
                   else sin (v_X k ! i)))
           \<and> v_rng k = 12000
           \<and> v_X_plot k = np_linspace 0 5 100000
           \<and> calls k = calls k0 @ [Import ''sklearn'', Import ''plotly.plotly'',
               Import ''plotly.graph_objs'', Import ''plotly'', Import ''__future__'',
               Import ''time'', Import ''numpy'', Import ''sklearn.svm'',
               Import ''sklearn.model_selection'', Import ''sklearn.model_selection'',
               Import ''sklearn.kernel_ridge'']
               @ [RandomState, Rand, Sin, Rand, Linspace]
           \<and> published k = published k0"
proof -
  obtain ka where A: "run [cell1 W, cell2 W] k0 = Inr ka
          \<and> calls ka = calls k0 @ [Import ''sklearn'', Import ''plotly.plotly'',
               Import ''plotly.graph_objs'', Import ''plotly'', Import ''__future__'',
               Import ''time'', Import ''numpy'', Import ''sklearn.svm'',
               Import ''sklearn.model_selection'', Import ''sklearn.model_selection'',
               Import ''sklearn.kernel_ridge'']
          \<and> published ka = published k0"
    using cell12_effect [OF q, of k0] ..
  from cell3_effect [OF q, of ka]
  obtain k1 k where B: "run [new_rng W, gen_X W, gen_y W] ka = Inr k1
           \<and> cell3 W ka = Inr k
           \<and> length (v_X k) = 10000 \<and> length (v_y k) = 10000
           \<and> (\<forall>i<10000. v_X k ! i = 5 * draws W i)
           \<and> v_X k1 = v_X k
           \<and> v_y k1 = map sin (v_X k)
           \<and> (\<forall>i<10000. v_y k ! i =
                  (if i mod 5 = 0
                   then sin (v_X k ! i) + 3 * (0.5 - draws W (10000 + i div 5))
                   else sin (v_X k ! i)))
           \<and> v_rng k = 12000
           \<and> v_X_plot k = np_linspace 0 5 100000
           \<and> calls k = calls ka @ [RandomState, Rand, Sin, Rand, Linspace]
           \<and> published k = published ka"
    by (elim exE)
  have r: "run ([cell1 W, cell2 W] @ [cell3 W]) k0 = Inr k"
    using A B by (simp only: run_append run_single sum.case)
  show ?thesis
    apply (rule exI [of _ k])
    using r A B by simp
qed


lemma stage3_facts:
  assumes q: "\<forall>j. raises W j = None"
  shows "run [cell1 W, cell2 W, cell3 W] k0 = Inr (stage3 W k0)
           \<and> length (v_X (stage3 W k0)) = 10000 \<and> length (v_y (stage3 W k0)) = 10000
           \<and> (\<forall>i<10000. v_X (stage3 W k0) ! i = 5 * draws W i)
           \<and> (\<forall>i<10000. v_y (stage3 W k0) ! i =
                  (if i mod 5 = 0
                   then sin (v_X (stage3 W k0) ! i) + 3 * (0.5 - draws W (10000 + i div 5))
                   else sin (v_X (stage3 W k0) ! i)))
           \<and> v_rng (stage3 W k0) = 12000
           \<and> v_X_plot (stage3 W k0) = np_linspace 0 5 100000
           \<and> calls (stage3 W k0) = calls k0 @ [Import ''sklearn'', Import ''plotly.plotly'',
               Import ''plotly.graph_objs'', Import ''plotly'', Import ''__future__'',
               Import ''time'', Import ''numpy'', Import ''sklearn.svm'',
               Import ''sklearn.model_selection'', Import ''sklearn.model_selection'',
               Import ''sklearn.kernel_ridge'']
               @ [RandomState, Rand, Sin, Rand, Linspace]
           \<and> published (stage3 W k0) = published k0"
  unfolding stage3_def
  by (rule ex_state_of) (rule cells123_effect [OF q])

lemma stage4_facts:
  assumes q: "\<forall>j. raises W j = None"
  shows "cell4 W (stage3 W k0) = Inr (stage4 W k0)
          \<and> calls (stage4 W k0) = calls (stage3 W k0) @ [New_SVR, Logspace, New_GridSearchCV,
               New_KernelRidge, Logspace, New_GridSearchCV,
               Time, Fit, Time, Print, Time, Fit, Time, Print, Print,
               Time, Predict, Time, Print, Time, Predict, Time, Print]
          \<and> v_X (stage4 W k0) = v_X (stage3 W k0) \<and> v_y (stage4 W k0) = v_y (stage3 W k0)
          \<and> v_rng (stage4 W k0) = v_rng (stage3 W k0)
          \<and> v_X_plot (stage4 W k0) = v_X_plot (stage3 W k0)
          \<and> v_svr (stage4 W k0)
              = Model (GridSearchCV (SVR [(''kernel'', Str ''rbf''), (''gamma'', Num 0.1)])
                [(''cv'', IntNum 5),
                 (''param_grid'', Dict [(''C'', Lst [Num 1, Num 10, Num 100, Num 1000]),
                                        (''gamma'', NdArray (np_logspace (- 2) 2 5))])])
             (Some (slice_to (v_X (stage3 W k0)) 100, slice_to (v_y (stage3 W k0)) 100))
          \<and> v_y_svr (stage4 W k0) = predict W (v_svr (stage4 W k0)) (v_X_plot (stage3 W k0))
          \<and> v_y_kr (stage4 W k0) = predict W (v_kr (stage4 W k0)) (v_X_plot (stage3 W k0))
          \<and> published (stage4 W k0) = published (stage3 W k0)"
  unfolding stage4_def
  by (rule ex_state_of) (rule cell4_effect [OF q])


lemma stage5_facts:
  assumes q: "\<forall>j. raises W j = None"
    and sv: "\<forall>m. list_all (\<lambda>i. i < 100) (support W m)"
  shows "cell5 W (stage4 W k0) = Inr (stage5 W k0)
          \<and> grid_ref (v_fig (stage5 W k0)) = [[Some (''x1'', ''y1''), Some (''x2'', ''y2'')],
                                    [Some (''x3'', ''y3''), None]]
          \<and> map trace_axes (fig_data (v_fig (stage5 W k0)))
               = [(Some (Str ''x1''), Some (Str ''y1'')), (Some (Str ''x1''), Some (Str ''y1'')),
                  (Some (Str ''x1''), Some (Str ''y1'')), (Some (Str ''x1''), Some (Str ''y1'')),
                  (Some (Str ''x2''), Some (Str ''y2'')), (Some (Str ''x2''), Some (Str ''y2'')),
                  (Some (Str ''x2''), Some (Str ''y2'')), (Some (Str ''x2''), Some (Str ''y2'')),
                  (Some (Str ''x3''), Some (Str ''y3'')), (Some (Str ''x3''), Some (Str ''y3''))]
          \<and> map (trace_field ''x'') (fig_data (v_fig (stage5 W k0)))
               = [Some (py_list (map (\<lambda>i. v_X (stage4 W k0) ! i) (support W (v_svr (stage4 W k0))))),
                  Some (py_list (slice_to (v_X (stage4 W k0)) 100)),
                  Some (py_list (v_X_plot (stage4 W k0))), Some (py_list (v_X_plot (stage4 W k0))),
                  Some (NdArray (np_logspace 1 4 7)), Some (NdArray (np_logspace 1 4 7)),
                  Some (NdArray (np_logspace 1 4 7)), Some (NdArray (np_logspace 1 4 7)),
                  Some (NdArray (v_train_sizes (stage5 W k0))), Some (NdArray (v_train_sizes (stage5 W k0)))]
          \<and> (\<exists>l5 l6 l7 l8. map (trace_field ''y'') (fig_data (v_fig (stage5 W k0)))
               = [Some (py_list (map (\<lambda>i. v_y (stage4 W k0) ! i) (support W (v_svr (stage4 W k0))))),
                  Some (py_list (slice_to (v_y (stage4 W k0)) 100)),
                  Some (py_list (v_y_svr (stage4 W k0))), Some (py_list (v_y_kr (stage4 W k0))),
                  Some (py_list l5), Some (py_list l6), Some (py_list l7), Some (py_list l8),
                  Some (NdArray (map (\<lambda>row. - mean row) (v_test_scores_svr (stage5 W k0)))),
                  Some (NdArray (map (\<lambda>row. - mean row) (v_test_scores_kr (stage5 W k0))))]
               \<and> length l5 = 7 \<and> length l6 = 7 \<and> length l7 = 7 \<and> length l8 = 7)
          \<and> calls (stage5 W k0) = calls (stage4 W k0) @ [MakeSubplots, Scatter, Scatter, Scatter, Scatter,
                 LayoutUpdate, LayoutUpdate, AppendTrace, AppendTrace, AppendTrace, AppendTrace]
               @ [Rand, Sin, Rand, Logspace] @ [New_KernelRidge, New_SVR] @
               [Time, Fit, Time, Time, Predict, Time, Time, Fit, Time, Time, Predict, Time,
                Time, Fit, Time, Time, Predict, Time, Time, Fit, Time, Time, Predict, Time,
                Time, Fit, Time, Time, Predict, Time, Time, Fit, Time, Time, Predict, Time,
                Time, Fit, Time, Time, Predict, Time, Scatter, Scatter] @
               [Time, Fit, Time, Time, Predict, Time, Time, Fit, Time, Time, Predict, Time,
                Time, Fit, Time, Time, Predict, Time, Time, Fit, Time, Time, Predict, Time,
                Time, Fit, Time, Time, Predict, Time, Time, Fit, Time, Time, Predict, Time,
                Time, Fit, Time, Time, Predict, Time, Scatter, Scatter] @
               [AppendTrace, AppendTrace, AppendTrace, AppendTrace, LayoutUpdate, LayoutUpdate]
               @ [New_SVR, New_KernelRidge, Linspace, LearningCurve,
               Linspace, LearningCurve, Scatter, Scatter, AppendTrace, AppendTrace,
               LayoutUpdate, LayoutUpdate, LayoutUpdate]
          \<and> length (v_X (stage5 W k0)) = 10000 \<and> length (v_y (stage5 W k0)) = 10000
          \<and> (\<forall>i<10000. v_X (stage5 W k0) ! i = 5 * draws W (v_rng (stage4 W k0) + i))
          \<and> (\<forall>i<10000. v_y (stage5 W k0) ! i =
                  (if i mod 5 = 0
                   then sin (v_X (stage5 W k0) ! i) + 3 * (0.5 - draws W (v_rng (stage4 W k0) + 10000 + i div 5))
                   else sin (v_X (stage5 W k0) ! i)))
          \<and> v_rng (stage5 W k0) = v_rng (stage4 W k0) + 12000
          \<and> v_X_plot (stage5 W k0) = v_X_plot (stage4 W k0)
          \<and> v_svr (stage5 W k0) = Model (SVR [(''kernel'', Str ''rbf''), (''C'', Num 10), (''gamma'', Num 0.1)]) None
          \<and> v_kr (stage5 W k0) = Model (KernelRidge [(''kernel'', Str ''rbf''), (''alpha'', Num 0.1),
                           (''gamma'', Num 0.1)]) None"
proof -
  have len: "length (v_X (stage4 W k0)) = 10000" "length (v_y (stage4 W k0)) = 10000"
    using stage3_facts [OF q, of k0] stage4_facts [OF q, of k0] by simp_all
  have sx: "list_all (\<lambda>i. i < length (v_X (stage4 W k0))) (support W (v_svr (stage4 W k0)))"
    and sy: "list_all (\<lambda>i. i < length (v_y (stage4 W k0))) (support W (v_svr (stage4 W k0)))"
    using sv [rule_format, of "v_svr (stage4 W k0)"] by (simp_all only: len support_bound)
  show ?thesis
    unfolding stage5_def
    by (rule ex_state_of) (rule cell5_effect [OF q sx sy])
qed

lemma stage7_facts:
  assumes q: "\<forall>j. raises W j = None"
  shows "run [cell6 W, cell7 W] (stage5 W k0) = Inr (stage7 W k0)
          \<and> calls (stage7 W k0) = calls (stage5 W k0) @ [Iplot, Import ''IPython.display'', HTML, Display, HTML,
               Display, Shell ''pip install git+https://github.com/plotly/publisher.git --upgrade'',
               Import ''publisher'', Publish]
          \<and> v_fig (stage7 W k0) = v_fig (stage5 W k0) \<and> v_X (stage7 W k0) = v_X (stage5 W k0) \<and> v_y (stage7 W k0) = v_y (stage5 W k0) \<and> v_rng (stage7 W k0) = v_rng (stage5 W k0)
          \<and> v_svr (stage7 W k0) = v_svr (stage5 W k0) \<and> v_kr (stage7 W k0) = v_kr (stage5 W k0)
          \<and> published (stage7 W k0) = published (stage5 W k0)
               @ [publisher W (files W ''comparision.ipynb'') publish_args publish_kwargs]
          \<and> v_exit_code (stage7 W k0) = shell_exit W (length (calls (stage5 W k0)) + 6)"
  unfolding stage7_def
  by (rule ex_state_of) (rule cell67_effect [OF q])

lemma notebook_run:
  assumes q: "\<forall>j. raises W j = None"
    and sv: "\<forall>m. list_all (\<lambda>i. i < 100) (support W m)"
  shows "notebook W k0 = Inr (stage7 W k0)"
proof -
  have n: "notebook W = run ([cell1 W, cell2 W, cell3 W] @ [cell4 W] @ [cell5 W]
             @ [cell6 W, cell7 W])"
    by (simp add: notebook_def)
  have r3: "run [cell1 W, cell2 W, cell3 W] k0 = Inr (stage3 W k0)"
    using stage3_facts [OF q, of k0] by simp
  have r4: "cell4 W (stage3 W k0) = Inr (stage4 W k0)"
    using stage4_facts [OF q, of k0] by simp
  have r5: "cell5 W (stage4 W k0) = Inr (stage5 W k0)"
    using stage5_facts [OF q sv, of k0] by simp
  have r7: "run [cell6 W, cell7 W] (stage5 W k0) = Inr (stage7 W k0)"
    using stage7_facts [OF q, of k0] by simp
  show ?thesis
    by (simp only: n run_append run_single r3 r4 r5 r7 sum.case)
qed


section \<open>The figure and its traces\<close>

lemma count_by_map:
  "length (filter (\<lambda>t. f t = c) xs) = length (filter (\<lambda>a. a = c) (map f xs))"
  by (induction xs) auto

lemma append_trace_appends:
  "append_trace f t row col = Inr f' \<Longrightarrow>
   \<exists>t'. fig_data f' = fig_data f @ [t'] \<and> grid_ref f' = grid_ref f
        \<and> fig_layout f' = fig_layout f"
  by (auto simp: append_trace_def split: if_splits sum.splits option.splits pyobj.splits
        prod.splits)

lemma append_trace_empty_cell:
  "grid_ref f = [[Some (''x1'', ''y1''), Some (''x2'', ''y2'')], [Some (''x3'', ''y3''), None]]
   \<Longrightarrow> append_trace f t 2 2 = Inl PlotlyError"
  by (simp add: append_trace_def getitem_def)

text \<open>
  C10. The figure of the plotting cell has a 2-by-2 grid whose cell (2, 2) is empty (a
  trace cannot be appended there); when the cell has run the figure holds exactly 10
  traces, 4 on the axes of subplot (1, 1), 4 on those of (1, 2) and 2 on those of (2, 1),
  in this order, put there by 10 calls of \<^verbatim>\<open>append_trace\<close>; and \<^verbatim>\<open>append_trace\<close> adds its
  trace at the end of the figure's data, leaving the traces before it as they were.
\<close>

theorem figure_traces:
  assumes q: "\<forall>j. raises W j = None"
    and sx: "list_all (\<lambda>i. i < length (v_X k0)) (support W (v_svr k0))"
    and sy: "list_all (\<lambda>i. i < length (v_y k0)) (support W (v_svr k0))"
  shows "(\<exists>k. cell5 W k0 = Inr k
          \<and> grid_ref (v_fig k) = [[Some (''x1'', ''y1''), Some (''x2'', ''y2'')],
                                    [Some (''x3'', ''y3''), None]]
          \<and> (\<forall>t. append_trace (v_fig k) t 2 2 = Inl PlotlyError)
          \<and> length (fig_data (v_fig k)) = 10
          \<and> map trace_axes (fig_data (v_fig k))
               = [(Some (Str ''x1''), Some (Str ''y1'')), (Some (Str ''x1''), Some (Str ''y1'')),
                  (Some (Str ''x1''), Some (Str ''y1'')), (Some (Str ''x1''), Some (Str ''y1'')),
                  (Some (Str ''x2''), Some (Str ''y2'')), (Some (Str ''x2''), Some (Str ''y2'')),
                  (Some (Str ''x2''), Some (Str ''y2'')), (Some (Str ''x2''), Some (Str ''y2'')),
                  (Some (Str ''x3''), Some (Str ''y3'')), (Some (Str ''x3''), Some (Str ''y3''))]
          \<and> length (filter (\<lambda>t. trace_axes t = (Some (Str ''x1''), Some (Str ''y1'')))
                 (fig_data (v_fig k))) = 4
          \<and> length (filter (\<lambda>t. trace_axes t = (Some (Str ''x2''), Some (Str ''y2'')))
                 (fig_data (v_fig k))) = 4
          \<and> length (filter (\<lambda>t. trace_axes t = (Some (Str ''x3''), Some (Str ''y3'')))
                 (fig_data (v_fig k))) = 2
          \<and> length (filter (\<lambda>a. a = AppendTrace) (drop (length (calls k0)) (calls k))) = 10)
       \<and> (\<forall>f t row col f'. append_trace f t row col = Inr f' \<longrightarrow>
             (\<exists>t'. fig_data f' = fig_data f @ [t']) \<and> grid_ref f' = grid_ref f)"
proof -
  let ?k = "state_of (cell5 W k0)"
  note F = ex_state_of [OF cell5_effect [OF q sx sy]]
  have r: "cell5 W k0 = Inr ?k" using F by simp
  have g: "grid_ref (v_fig ?k) = [[Some (''x1'', ''y1''), Some (''x2'', ''y2'')],
                                    [Some (''x3'', ''y3''), None]]"
    using F by simp
  have ax: "map trace_axes (fig_data (v_fig ?k))
               = [(Some (Str ''x1''), Some (Str ''y1'')), (Some (Str ''x1''), Some (Str ''y1'')),
                  (Some (Str ''x1''), Some (Str ''y1'')), (Some (Str ''x1''), Some (Str ''y1'')),
                  (Some (Str ''x2''), Some (Str ''y2'')), (Some (Str ''x2''), Some (Str ''y2'')),
                  (Some (Str ''x2''), Some (Str ''y2'')), (Some (Str ''x2''), Some (Str ''y2'')),
                  (Some (Str ''x3''), Some (Str ''y3'')), (Some (Str ''x3''), Some (Str ''y3''))]"
    using F by simp
  have len: "length (fig_data (v_fig ?k)) = 10"
  proof -
    have "length (map trace_axes (fig_data (v_fig ?k))) = 10" by (simp only: ax) simp
    then show ?thesis by simp
  qed
  have n1: "length (filter (\<lambda>t. trace_axes t = (Some (Str ''x1''), Some (Str ''y1'')))
                 (fig_data (v_fig ?k))) = 4"
    and n2: "length (filter (\<lambda>t. trace_axes t = (Some (Str ''x2''), Some (Str ''y2'')))
                 (fig_data (v_fig ?k))) = 4"
    and n3: "length (filter (\<lambda>t. trace_axes t = (Some (Str ''x3''), Some (Str ''y3'')))
                 (fig_data (v_fig ?k))) = 2"
    by (simp_all add: count_by_map ax)
  have c: "length (filter (\<lambda>a. a = AppendTrace) (drop (length (calls k0)) (calls ?k))) = 10"
    using F by simp
  have e: "\<forall>t. append_trace (v_fig ?k) t 2 2 = Inl PlotlyError"
    using append_trace_empty_cell [OF g] by simp
  have first: "\<exists>k. cell5 W k0 = Inr k
          \<and> grid_ref (v_fig k) = [[Some (''x1'', ''y1''), Some (''x2'', ''y2'')],
                                    [Some (''x3'', ''y3''), None]]
          \<and> (\<forall>t. append_trace (v_fig k) t 2 2 = Inl PlotlyError)
          \<and> length (fig_data (v_fig k)) = 10
          \<and> map trace_axes (fig_data (v_fig k))
               = [(Some (Str ''x1''), Some (Str ''y1'')), (Some (Str ''x1''), Some (Str ''y1'')),
                  (Some (Str ''x1''), Some (Str ''y1'')), (Some (Str ''x1''), Some (Str ''y1'')),
                  (Some (Str ''x2''), Some (Str ''y2'')), (Some (Str ''x2''), Some (Str ''y2'')),
                  (Some (Str ''x2''), Some (Str ''y2'')), (Some (Str ''x2''), Some (Str ''y2'')),
                  (Some (Str ''x3''), Some (Str ''y3'')), (Some (Str ''x3''), Some (Str ''y3''))]
          \<and> length (filter (\<lambda>t. trace_axes t = (Some (Str ''x1''), Some (Str ''y1'')))
                 (fig_data (v_fig k))) = 4
          \<and> length (filter (\<lambda>t. trace_axes t = (Some (Str ''x2''), Some (Str ''y2'')))
                 (fig_data (v_fig k))) = 4
          \<and> length (filter (\<lambda>t. trace_axes t = (Some (Str ''x3''), Some (Str ''y3'')))
                 (fig_data (v_fig k))) = 2
          \<and> length (filter (\<lambda>a. a = AppendTrace) (drop (length (calls k0)) (calls k))) = 10"
    apply (rule exI [of _ ?k])
    apply (intro conjI)
    apply (rule r g e len ax n1 n2 n3 c)+
    done
  have second: "\<forall>f t row col f'. append_trace f t row col = Inr f' \<longrightarrow>
             (\<exists>t'. fig_data f' = fig_data f @ [t']) \<and> grid_ref f' = grid_ref f"
    using append_trace_appends by blast
  show ?thesis using first second by (rule conjI)
qed

theorem figure_traces_witness:
  "cell5 calm_world (stage4 calm_world fresh) = Inr (stage5 calm_world fresh)
   \<and> length (fig_data (v_fig (stage5 calm_world fresh))) = 10
   \<and> append_trace (v_fig (stage5 calm_world fresh)) (Dict []) 2 2 = Inl PlotlyError
   \<and> length (filter (\<lambda>t. trace_axes t = (Some (Str ''x3''), Some (Str ''y3'')))
        (fig_data (v_fig (stage5 calm_world fresh)))) = 2"
proof -
  have q: "\<forall>j. raises calm_world j = None" by (simp add: calm_world_def)
  have sv: "\<forall>m. list_all (\<lambda>i. i < 100) (support calm_world m)"
    by (simp add: calm_world_def)
  have len: "length (v_X (stage4 calm_world fresh)) = 10000"
    "length (v_y (stage4 calm_world fresh)) = 10000"
    using stage3_facts [OF q, of fresh] stage4_facts [OF q, of fresh] by simp_all
  have sx: "list_all (\<lambda>i. i < length (v_X (stage4 calm_world fresh)))
              (support calm_world (v_svr (stage4 calm_world fresh)))"
    and sy: "list_all (\<lambda>i. i < length (v_y (stage4 calm_world fresh)))
              (support calm_world (v_svr (stage4 calm_world fresh)))"
    using sv [rule_format, of "v_svr (stage4 calm_world fresh)"]
    by (simp_all only: len support_bound)
  have r: "cell5 calm_world (stage4 calm_world fresh) = Inr (stage5 calm_world fresh)"
    using stage5_facts [OF q sv, of fresh] by simp
  from figure_traces [OF q sx sy, THEN conjunct1]
  obtain k where A: "cell5 calm_world (stage4 calm_world fresh) = Inr k"
    and B: "length (fig_data (v_fig k)) = 10"
    and C: "\<forall>t. append_trace (v_fig k) t 2 2 = Inl PlotlyError"
    and D: "length (filter (\<lambda>t. trace_axes t = (Some (Str ''x3''), Some (Str ''y3'')))
                 (fig_data (v_fig k))) = 2"
    by (elim exE conjE)
  have "k = stage5 calm_world fresh" using A r by simp
  then show ?thesis using r B C D by simp
qed

lemma calm_quiet: "\<forall>j. raises calm_world j = None"
  by (simp add: calm_world_def)

lemma calm_support: "\<forall>m. list_all (\<lambda>i. i < 100) (support calm_world m)"
  by (simp add: calm_world_def)







section \<open>The order of the operations\<close>

lemma notebook_calls:
  assumes q: "\<forall>j. raises W j = None"
    and sv: "\<forall>m. list_all (\<lambda>i. i < 100) (support W m)"
  shows "calls (stage7 W k0) = calls k0 @
     [Import ''sklearn'', Import ''plotly.plotly'',
      Import ''plotly.graph_objs'', Import ''plotly'', Import ''__future__'',
      Import ''time'', Import ''numpy'', Import ''sklearn.svm'',
      Import ''sklearn.model_selection'', Import ''sklearn.model_selection'',
      Import ''sklearn.kernel_ridge'',
      RandomState, Rand, Sin, Rand, Linspace,
      New_SVR, Logspace, New_GridSearchCV, New_KernelRidge, Logspace, New_GridSearchCV,
      Time, Fit, Time, Print, Time, Fit, Time, Print, Print,
      Time, Predict, Time, Print, Time, Predict, Time, Print,
      MakeSubplots, Scatter, Scatter, Scatter, Scatter,
      LayoutUpdate, LayoutUpdate, AppendTrace, AppendTrace, AppendTrace, AppendTrace,
      Rand, Sin, Rand, Logspace, New_KernelRidge, New_SVR,
      Time, Fit, Time, Time, Predict, Time, Time, Fit, Time, Time, Predict, Time,
      Time, Fit, Time, Time, Predict, Time, Time, Fit, Time, Time, Predict, Time,
      Time, Fit, Time, Time, Predict, Time, Time, Fit, Time, Time, Predict, Time,
      Time, Fit, Time, Time, Predict, Time, Scatter, Scatter,
      Time, Fit, Time, Time, Predict, Time, Time, Fit, Time, Time, Predict, Time,
      Time, Fit, Time, Time, Predict, Time, Time, Fit, Time, Time, Predict, Time,
      Time, Fit, Time, Time, Predict, Time, Time, Fit, Time, Time, Predict, Time,
      Time, Fit, Time, Time, Predict, Time, Scatter, Scatter,
      AppendTrace, AppendTrace, AppendTrace, AppendTrace, LayoutUpdate, LayoutUpdate,
      New_SVR, New_KernelRidge, Linspace, LearningCurve,
      Linspace, LearningCurve, Scatter, Scatter, AppendTrace, AppendTrace,
      LayoutUpdate, LayoutUpdate, LayoutUpdate,
      Iplot, Import ''IPython.display'', HTML, Display, HTML, Display,
      Shell ''pip install git+https://github.com/plotly/publisher.git --upgrade'',
      Import ''publisher'', Publish]"
proof -
  have c3: "calls (stage3 W k0) = calls k0 @ [Import ''sklearn'', Import ''plotly.plotly'',
               Import ''plotly.graph_objs'', Import ''plotly'', Import ''__future__'',
               Import ''time'', Import ''numpy'', Import ''sklearn.svm'',
               Import ''sklearn.model_selection'', Import ''sklearn.model_selection'',
               Import ''sklearn.kernel_ridge'']
               @ [RandomState, Rand, Sin, Rand, Linspace]"
    using stage3_facts [OF q, of k0] by simp
  have c4: "calls (stage4 W k0) = calls (stage3 W k0) @ [New_SVR, Logspace, New_GridSearchCV,
               New_KernelRidge, Logspace, New_GridSearchCV,
               Time, Fit, Time, Print, Time, Fit, Time, Print, Print,
               Time, Predict, Time, Print, Time, Predict, Time, Print]"
    using stage4_facts [OF q, of k0] by simp
  have c5: "calls (stage5 W k0) = calls (stage4 W k0) @ [MakeSubplots, Scatter, Scatter, Scatter, Scatter,
                 LayoutUpdate, LayoutUpdate, AppendTrace, AppendTrace, AppendTrace, AppendTrace]
               @ [Rand, Sin, Rand, Logspace] @ [New_KernelRidge, New_SVR] @
               [Time, Fit, Time, Time, Predict, Time, Time, Fit, Time, Time, Predict, Time,
                Time, Fit, Time, Time, Predict, Time, Time, Fit, Time, Time, Predict, Time,
                Time, Fit, Time, Time, Predict, Time, Time, Fit, Time, Time, Predict, Time,
                Time, Fit, Time, Time, Predict, Time, Scatter, Scatter] @
               [Time, Fit, Time, Time, Predict, Time, Time, Fit, Time, Time, Predict, Time,
                Time, Fit, Time, Time, Predict, Time, Time, Fit, Time, Time, Predict, Time,
                Time, Fit, Time, Time, Predict, Time, Time, Fit, Time, Time, Predict, Time,
                Time, Fit, Time, Time, Predict, Time, Scatter, Scatter] @
               [AppendTrace, AppendTrace, AppendTrace, AppendTrace, LayoutUpdate, LayoutUpdate]
               @ [New_SVR, New_KernelRidge, Linspace, LearningCurve,
               Linspace, LearningCurve, Scatter, Scatter, AppendTrace, AppendTrace,
               LayoutUpdate, LayoutUpdate, LayoutUpdate]"
    using stage5_facts [OF q sv, of k0] by simp
  have c7: "calls (stage7 W k0) = calls (stage5 W k0) @ [Iplot, Import ''IPython.display'', HTML, Display, HTML,
               Display, Shell ''pip install git+https://github.com/plotly/publisher.git --upgrade'',
               Import ''publisher'', Publish]"
    using stage7_facts [OF q, of k0] by simp
  show ?thesis by (simp only: c7 c5 c4 c3 append_assoc append_Cons append_Nil)
qed


text \<open>
  C5, as the claim states it, fails: in a run of the comparison notebook the call that
  makes the figure (a plotting call, the 40th call) comes before the draw of the second
  sample (a data call, the 51st) and before a fit (the 58th); and the first call is an
  import, which is of none of the four kinds.
\<close>

theorem plot_before_second_sample:
  "notebook calm_world fresh = Inr (stage7 calm_world fresh)
   \<and> calls (stage7 calm_world fresh) ! 39 = MakeSubplots \<and> kind_of MakeSubplots = Plot
   \<and> calls (stage7 calm_world fresh) ! 50 = Rand \<and> kind_of Rand = Generate
   \<and> calls (stage7 calm_world fresh) ! 57 = Fit \<and> kind_of Fit = FitPredict
   \<and> calls (stage7 calm_world fresh) ! 0 = Import ''sklearn''
   \<and> kind_of (Import ''sklearn'') = NoKind"
proof -
  have r: "notebook calm_world fresh = Inr (stage7 calm_world fresh)"
    by (rule notebook_run [OF calm_quiet calm_support])
  have c: "calls (stage7 calm_world fresh) = [Import ''sklearn'', Import ''plotly.plotly'',
      Import ''plotly.graph_objs'', Import ''plotly'', Import ''__future__'',
      Import ''time'', Import ''numpy'', Import ''sklearn.svm'',
      Import ''sklearn.model_selection'', Import ''sklearn.model_selection'',
      Import ''sklearn.kernel_ridge'',
      RandomState, Rand, Sin, Rand, Linspace,
      New_SVR, Logspace, New_GridSearchCV, New_KernelRidge, Logspace, New_GridSearchCV,
      Time, Fit, Time, Print, Time, Fit, Time, Print, Print,
      Time, Predict, Time, Print, Time, Predict, Time, Print,
      MakeSubplots, Scatter, Scatter, Scatter, Scatter,
      LayoutUpdate, LayoutUpdate, AppendTrace, AppendTrace, AppendTrace, AppendTrace,
      Rand, Sin, Rand, Logspace, New_KernelRidge, New_SVR,
      Time, Fit, Time, Time, Predict, Time, Time, Fit, Time, Time, Predict, Time,
      Time, Fit, Time, Time, Predict, Time, Time, Fit, Time, Time, Predict, Time,
      Time, Fit, Time, Time, Predict, Time, Time, Fit, Time, Time, Predict, Time,
      Time, Fit, Time, Time, Predict, Time, Scatter, Scatter,
      Time, Fit, Time, Time, Predict, Time, Time, Fit, Time, Time, Predict, Time,
      Time, Fit, Time, Time, Predict, Time, Time, Fit, Time, Time, Predict, Time,
      Time, Fit, Time, Time, Predict, Time, Time, Fit, Time, Time, Predict, Time,
      Time, Fit, Time, Time, Predict, Time, Scatter, Scatter,
      AppendTrace, AppendTrace, AppendTrace, AppendTrace, LayoutUpdate, LayoutUpdate,
      New_SVR, New_KernelRidge, Linspace, LearningCurve,
      Linspace, LearningCurve, Scatter, Scatter, AppendTrace, AppendTrace,
      LayoutUpdate, LayoutUpdate, LayoutUpdate,
      Iplot, Import ''IPython.display'', HTML, Display, HTML, Display,
      Shell ''pip install git+https://github.com/plotly/publisher.git --upgrade'',
      Import ''publisher'', Publish]"
    using notebook_calls [OF calm_quiet calm_support, of fresh] by (simp add: fresh_def)
  show ?thesis by (simp add: r c)
qed

text \<open>
  C5, amended. The library calls of the comparison notebook are data, fit/predict, plotting
  and publish calls, and calls of no such kind (imports, the clock, printing, the display
  of HTML, a shell command). The first data call comes before the first fit/predict call
  and that before the first plotting call, but the kinds then alternate: the phases of a run
  are the nineteen listed below, with a second sample drawn and estimators fitted and timed
  inside the plotting cell. The publish request is made once and is the last call.
\<close>

theorem notebook_phases:
  assumes q: "\<forall>j. raises W j = None"
    and sv: "\<forall>m. list_all (\<lambda>i. i < 100) (support W m)"
  shows "\<exists>k. notebook W k0 = Inr k
          \<and> phases (drop (length (calls k0)) (calls k))
              = [Generate, FitPredict, Generate, FitPredict, Generate, FitPredict, Plot,
                 Generate, FitPredict, Plot, FitPredict, Plot, FitPredict, Generate,
                 FitPredict, Generate, FitPredict, Plot, PublishPage]
          \<and> NoKind \<in> set (map kind_of (drop (length (calls k0)) (calls k)))
          \<and> last (calls k) = Publish
          \<and> length (filter (\<lambda>a. a = Publish) (drop (length (calls k0)) (calls k))) = 1"
proof -
  have r: "notebook W k0 = Inr (stage7 W k0)"
    by (rule notebook_run [OF q sv])
  note c = notebook_calls [OF q sv, of k0]
  have p: "phases (drop (length (calls k0)) (calls (stage7 W k0)))
              = [Generate, FitPredict, Generate, FitPredict, Generate, FitPredict, Plot,
                 Generate, FitPredict, Plot, FitPredict, Plot, FitPredict, Generate,
                 FitPredict, Generate, FitPredict, Plot, PublishPage]"
    by (simp add: c phases_def)
  have n: "NoKind \<in> set (map kind_of (drop (length (calls k0)) (calls (stage7 W k0))))"
    by (simp add: c)
  have l: "last (calls (stage7 W k0)) = Publish"
    by (simp add: c)
  have o: "length (filter (\<lambda>a. a = Publish) (drop (length (calls k0)) (calls (stage7 W k0)))) = 1"
    by (simp add: c)
  show ?thesis
    apply (rule exI [of _ "stage7 W k0"])
    apply (intro conjI)
    apply (rule r p n l o)+
    done
qed

theorem notebook_phases_witness:
  "notebook calm_world fresh = Inr (stage7 calm_world fresh)
   \<and> phases (calls (stage7 calm_world fresh))
              = [Generate, FitPredict, Generate, FitPredict, Generate, FitPredict, Plot,
                 Generate, FitPredict, Plot, FitPredict, Plot, FitPredict, Generate,
                 FitPredict, Generate, FitPredict, Plot, PublishPage]
   \<and> last (calls (stage7 calm_world fresh)) = Publish"
proof -
  have r: "notebook calm_world fresh = Inr (stage7 calm_world fresh)"
    by (rule notebook_run [OF calm_quiet calm_support])
  from notebook_phases [OF calm_quiet calm_support, of fresh]
  obtain k where A: "notebook calm_world fresh = Inr k"
    and B: "phases (drop (length (calls fresh)) (calls k))
              = [Generate, FitPredict, Generate, FitPredict, Generate, FitPredict, Plot,
                 Generate, FitPredict, Plot, FitPredict, Plot, FitPredict, Generate,
                 FitPredict, Generate, FitPredict, Plot, PublishPage]"
    and C: "last (calls k) = Publish"
    by (elim exE conjE)
  have k: "k = stage7 calm_world fresh" using A r by simp
  have f: "length (calls fresh) = 0" by (simp add: fresh_def)
  show ?thesis using r B C k f by simp
qed

section \<open>State that later steps change\<close>







section \<open>The two artifacts\<close>









lemma render_front_matter:
  "render_page (''---'' # front_matter_lines @ ''---'' # body) = Some (front_matter, body)"
  by (simp add: render_page_def front_matter_def front_matter_lines_def)


section \<open>Properties of the front matter\<close>

lemma front_matter_eval:
  "front_matter =
    [(''permalink'', ''python/2D-Histogram/''),
     (''description'', ''How to make 2D Histograms in Python with Plotly.''),
     (''name'', ''Python 2D Histograms | plotly''),
     (''has_thumbnail'', ''true''),
     (''thumbnail'', ''thumbnail/histogram2d.jpg''),
     (''layout'', ''user-guide''),
     (''name'', ''2D Histograms''),
     (''language'', ''python''),
     (''title'', ''Python 2D Histograms | plotly''),
     (''display_as'', ''statistical''),
     (''has_thumbnail'', ''true''),
     (''ipynb'', ''~notebook_demo/24''),
     (''order'', ''6''),
     (''page_type'', ''u-guide'')]"
  by (simp add: front_matter_def front_matter_lines_def split_line_def)

text \<open>
  C4, as the claim states it, fails: the key \<^verbatim>\<open>name\<close> is on two lines (3 and 7 of the
  block) and so is \<^verbatim>\<open>has_thumbnail\<close> (4 and 11), so the keys of the block are not distinct.
\<close>

theorem front_matter_keys_not_distinct:
  "\<not> distinct (map fst front_matter) \<and> occurrences ''name'' = 2
   \<and> values_of ''name'' = [''Python 2D Histograms | plotly'', ''2D Histograms'']"
  by (simp add: front_matter_eval occurrences_def values_of_def)

text \<open>
  C4, amended. Every front-matter line of the HTML page is one of the twelve keys with a
  non-empty value, and every one of the twelve keys is present; \<^verbatim>\<open>name\<close> and
  \<^verbatim>\<open>has_thumbnail\<close> are on two lines each (\<^verbatim>\<open>name\<close> with two different values,
  \<^verbatim>\<open>has_thumbnail\<close> with the same value twice) and every other key on exactly one.
\<close>

theorem front_matter_keys:
  "list_all (\<lambda>kv. fst kv \<in> set spec_keys \<and> snd kv \<noteq> []) front_matter
   \<and> list_all (\<lambda>k. k \<in> set (map fst front_matter)) spec_keys
   \<and> map occurrences spec_keys = [1, 1, 2, 1, 1, 1, 1, 2, 1, 1, 1, 1]
   \<and> values_of ''name'' = [''Python 2D Histograms | plotly'', ''2D Histograms'']
   \<and> values_of ''has_thumbnail'' = [''true'', ''true'']"
  by (simp add: front_matter_eval occurrences_def values_of_def spec_keys_def)

end
